theory Spec2Isabelle
  imports Complex_Main "HOL-Library.Sublist"
begin

section \<open>Overview\<close>

text \<open>
  A shallow embedding of the OpenNebula driver \<open>salt/cloud/clouds/opennebula.py\<close>: the
  XML flattener, the resource listers, the lookup by name with its bounded retry, the
  update operations, and the destruction and creation of a VM.

  A function that raises returns a value of \<open>error + 'a\<close>. A function that talks to the
  provider or to the host framework takes the world and returns it with its result; the
  world is the record of what was done (requests, events, pauses, cache writes, bootstrap
  handoffs). What the module calls but does not define (the provider, the markup parser,
  the configuration lookup, \<open>int\<close> on strings, \<open>repr\<close>, the file system,
  \<open>wait_for_ip\<close>, \<open>bootstrap\<close>) is a field of the environment, so every statement holds
  for any behaviour of these. Calls of the logger have no part in any result and are left
  out. Strings are byte strings.
\<close>

section \<open>Python values and markup trees\<close>

text \<open>
  The values the driver handles: \<open>None\<close>, booleans, integers, strings, lists and
  dictionaries with string keys. A dictionary is an association list with distinct keys,
  kept in insertion order (the order of iteration, which only \<open>get_image\<close> and
  \<open>get_location\<close> depend on, is that of insertion).
\<close>

datatype pyval =
    PNone
  | PBool bool
  | PInt int
  | PStr string
  | PList "pyval list"
  | PDict "(string \<times> pyval) list"

text \<open>
  An lxml element: its tag, its text (\<open>None\<close> when the element has no text) and its
  child elements in document order. Comments and processing instructions are not
  modelled.
\<close>

datatype xml = Element (tag: string) (text_of: "string option") (children: "xml list")

text \<open>\<open>d[k] = v\<close>: replaces the value of an existing key, adds a new key at the end.\<close>

fun dict_set :: "('k \<times> 'v) list \<Rightarrow> 'k \<Rightarrow> 'v \<Rightarrow> ('k \<times> 'v) list" where
  "dict_set [] k v = [(k, v)]"
| "dict_set ((k', v') # d) k v =
     (if k' = k then (k, v) # d else (k', v') # dict_set d k v)"

text \<open>\<open>str.lower()\<close> on an ASCII string.\<close>

definition lower_char :: "char \<Rightarrow> char" where
  "lower_char c =
     (case map_of (zip ''ABCDEFGHIJKLMNOPQRSTUVWXYZ'' ''abcdefghijklmnopqrstuvwxyz'') c of
        Some l \<Rightarrow> l
      | None \<Rightarrow> c)"

definition lower :: "string \<Rightarrow> string" where
  "lower s = map lower_char s"

text \<open>\<open>str(idx)\<close> for a non-negative integer: its decimal digits.\<close>

definition digit_char :: "nat \<Rightarrow> char" where
  "digit_char d = ''0123456789'' ! (d mod 10)"

fun str_nat :: "nat \<Rightarrow> string" where
  "str_nat n =
     (if n < 10 then [digit_char n] else str_nat (n div 10) @ [digit_char (n mod 10)])"

declare str_nat.simps [simp del]

section \<open>The XML flattener\<close>

text \<open>
  The inner loop of \<open>_xml_to_dict\<close>:
  \<^verbatim>\<open>
        while key in dicts:
            key += str(idx)
            idx += 1
  \<close>
  The key grows at every round, and \<open>dicts\<close> holds finitely many keys, so the loop ends.
\<close>

function unique_key :: "(string \<times> pyval) list \<Rightarrow> string \<Rightarrow> nat \<Rightarrow> string" where
  "unique_key dicts key idx =
     (if key \<in> set (map fst dicts) then unique_key dicts (key @ str_nat idx) (idx + 1)
      else key)"
  by pat_completeness auto

termination unique_key
proof (relation "measure (\<lambda>(dicts, key, idx). Suc (sum_list (map (\<lambda>kv. length (fst kv)) dicts)) - length key)")
  show "wf (measure (\<lambda>(dicts, key, idx). Suc (sum_list (map (\<lambda>kv. length (fst kv)) dicts)) - length key))"
    by simp
next
  fix dicts :: "(string \<times> pyval) list" and key :: string and idx :: nat
  assume member: "key \<in> set (map fst dicts)"
  have bounded: "k \<in> set (map fst d) \<Longrightarrow> length k \<le> sum_list (map (\<lambda>kv. length (fst kv)) d)"
    for k :: string and d :: "(string \<times> pyval) list"
  proof (induction d)
    case Nil
    then show ?case by simp
  next
    case (Cons kv d)
    show ?case
    proof (cases "k = fst kv")
      case True
      then show ?thesis by simp
    next
      case False
      with Cons.prems have "k \<in> set (map fst d)" by simp
      then have "length k \<le> sum_list (map (\<lambda>kv. length (fst kv)) d)" by (rule Cons.IH)
      then show ?thesis by simp
    qed
  qed
  have "length key \<le> sum_list (map (\<lambda>kv. length (fst kv)) dicts)"
    using member by (rule bounded)
  moreover have "0 < length (str_nat idx)"
    by (subst str_nat.simps) simp
  ultimately show "((dicts, key @ str_nat idx, idx + 1), (dicts, key, idx))
      \<in> measure (\<lambda>(dicts, key, idx). Suc (sum_list (map (\<lambda>kv. length (fst kv)) dicts)) - length key)"
    by (simp del: length_greater_0_conv)
qed

declare unique_key.simps [simp del]

text \<open>
  \<open>_xml_to_dict\<close>: the loop over the children, with the dictionary built so far as
  accumulator.
  \<^verbatim>\<open>
    dicts = {}
    for item in xml:
        key = item.tag.lower()
        idx = 1
        while key in dicts: ...
        if item.text is None:
            dicts[key] = _xml_to_dict(item)
        else:
            dicts[key] = item.text
    return dicts
  \<close>
\<close>

fun xml_to_dict :: "xml \<Rightarrow> (string \<times> pyval) list"
  and xml_to_dict_loop :: "xml list \<Rightarrow> (string \<times> pyval) list \<Rightarrow> (string \<times> pyval) list"
where
  "xml_to_dict (Element t x cs) = xml_to_dict_loop cs []"
| "xml_to_dict_loop [] dicts = dicts"
| "xml_to_dict_loop (item # rest) dicts =
     (let key = unique_key dicts (lower (tag item)) 1
      in xml_to_dict_loop rest
           (dict_set dicts key
              (case text_of item of None \<Rightarrow> PDict (xml_to_dict item) | Some s \<Rightarrow> PStr s)))"

text \<open>The value stored for a child: its text, or the flattening of the child.\<close>

definition item_value :: "xml \<Rightarrow> pyval" where
  "item_value item =
     (case text_of item of None \<Rightarrow> PDict (xml_to_dict item) | Some s \<Rightarrow> PStr s)"

text \<open>
  The keys that the flattening of \<open>xml\<close> gives to the children whose lower-cased tag is
  \<open>t\<close>, in sibling order.
\<close>

definition sibling_keys :: "string \<Rightarrow> xml \<Rightarrow> string list" where
  "sibling_keys t xml =
     map (fst \<circ> fst)
       (filter (\<lambda>(kv, item). lower (tag item) = t) (zip (xml_to_dict xml) (children xml)))"

text \<open>
  Two views of the loop used in the proofs: the entries the loop adds to the dictionary it
  starts from, and among them the keys of the children with tag \<open>t\<close>.
\<close>

fun new_entries :: "xml list \<Rightarrow> (string \<times> pyval) list \<Rightarrow> (string \<times> pyval) list" where
  "new_entries [] dicts = []"
| "new_entries (item # rest) dicts =
     (let kv = (unique_key dicts (lower (tag item)) 1, item_value item)
      in kv # new_entries rest (dicts @ [kv]))"

definition tkeys :: "string \<Rightarrow> xml list \<Rightarrow> (string \<times> pyval) list \<Rightarrow> string list" where
  "tkeys t cs dicts =
     map (fst \<circ> fst)
       (filter (\<lambda>(kv, item). lower (tag item) = t) (zip (new_entries cs dicts) cs))"

section \<open>Errors, Python operations and the environment\<close>

text \<open>
  The exceptions the module raises or meets. The Salt exceptions carry their message;
  \<open>OtherError\<close> stands for the failures of the collaborators (a transport fault, an
  unreadable file, markup that does not parse).
\<close>

datatype error =
    SaltCloudSystemExit string
  | SaltCloudConfigError string
  | SaltCloudException string
  | SaltCloudNotFound string
  | SaltCloudExecutionTimeout string
  | SaltCloudExecutionFailure string
  | KeyError
  | IndexError
  | AttributeError
  | TypeError
  | ValueError
  | OtherError string

definition sum_then :: "error + 'a \<Rightarrow> ('a \<Rightarrow> error + 'b) \<Rightarrow> error + 'b" where
  "sum_then r f = (case r of Inl e \<Rightarrow> Inl e | Inr x \<Rightarrow> f x)"

text \<open>Truth value of a Python value (\<open>not x\<close>, \<open>if x\<close>).\<close>

fun truthy :: "pyval \<Rightarrow> bool" where
  "truthy PNone = False"
| "truthy (PBool b) = b"
| "truthy (PInt n) = (n \<noteq> 0)"
| "truthy (PStr s) = (s \<noteq> [])"
| "truthy (PList xs) = (xs \<noteq> [])"
| "truthy (PDict d) = (d \<noteq> [])"

text \<open>\<open>v[k]\<close> for a string key \<open>k\<close>: only a dictionary can be indexed by a string.\<close>

definition getitem :: "pyval \<Rightarrow> string \<Rightarrow> error + pyval" where
  "getitem v k =
     (case v of
        PDict d \<Rightarrow> (case map_of d k of Some x \<Rightarrow> Inr x | None \<Rightarrow> Inl KeyError)
      | _ \<Rightarrow> Inl TypeError)"

text \<open>\<open>v[i]\<close> for a non-negative integer \<open>i\<close>.\<close>

definition getindex :: "pyval \<Rightarrow> nat \<Rightarrow> error + pyval" where
  "getindex v i =
     (case v of
        PList xs \<Rightarrow> (if i < length xs then Inr (xs ! i) else Inl IndexError)
      | PStr s \<Rightarrow> (if i < length s then Inr (PStr [s ! i]) else Inl IndexError)
      | PDict d \<Rightarrow> Inl KeyError
      | _ \<Rightarrow> Inl TypeError)"

text \<open>
  A resource pool is a dictionary keyed by the text of the \<open>NAME\<close> element, which is a
  string or \<open>None\<close>. \<open>pool[k]\<close>: a list or a dictionary cannot be a key.
\<close>

type_synonym pool = "(pyval \<times> pyval) list"

definition pool_getitem :: "pool \<Rightarrow> pyval \<Rightarrow> error + pyval" where
  "pool_getitem p k =
     (case k of
        PList _ \<Rightarrow> Inl TypeError
      | PDict _ \<Rightarrow> Inl TypeError
      | _ \<Rightarrow> (case map_of p k of Some v \<Rightarrow> Inr v | None \<Rightarrow> Inl KeyError))"

text \<open>\<open>':'.join([user, password])\<close>: both must be strings.\<close>

definition join_colon :: "pyval \<Rightarrow> pyval \<Rightarrow> error + string" where
  "join_colon user password =
     (case user of
        PStr u \<Rightarrow> (case password of PStr p \<Rightarrow> Inr (u @ '':'' @ p) | _ \<Rightarrow> Inl TypeError)
      | _ \<Rightarrow> Inl TypeError)"

text \<open>\<open>elem.find(t)\<close>, \<open>elem.findall(t)\<close> and \<open>elem.find(t).text\<close> for a plain tag \<open>t\<close>.\<close>

definition xml_find :: "xml \<Rightarrow> string \<Rightarrow> xml option" where
  "xml_find e t = List.find (\<lambda>c. tag c = t) (children e)"

definition xml_findall :: "xml \<Rightarrow> string \<Rightarrow> xml list" where
  "xml_findall e t = filter (\<lambda>c. tag c = t) (children e)"

definition text_value :: "xml \<Rightarrow> pyval" where
  "text_value e = (case text_of e of None \<Rightarrow> PNone | Some s \<Rightarrow> PStr s)"

definition find_text :: "xml \<Rightarrow> string \<Rightarrow> error + pyval" where
  "find_text e t =
     (case xml_find e t of None \<Rightarrow> Inl AttributeError | Some c \<Rightarrow> Inr (text_value c))"

text \<open>
  An XML-RPC request is a method name and its positional arguments; the provider
  answers with a value or with a fault. The world records what the module did to its
  collaborators: the requests sent with their answers, the events fired, the pauses
  taken, the nodes written to the node cache, the minion cache directories purged and
  the VM descriptions handed to the bootstrap routine.
\<close>

datatype rpc = Rpc (rpc_method: string) (rpc_args: "pyval list")

datatype response = Fault error | Reply pyval

datatype server = ServerProxy pyval

record world =
  rpc_log :: "(rpc \<times> response) list"
  events :: "(string \<times> string) list"
  sleeps :: "rat list"
  node_cache :: "pyval list"
  cachedir_purges :: "(pyval \<times> string) list"
  bootstraps :: "(string \<rightharpoonup> pyval) list"

type_synonym 'a run = "world \<Rightarrow> (error + 'a) \<times> world"

definition ok :: "'a \<Rightarrow> 'a run" where
  "ok x = (\<lambda>w. (Inr x, w))"

definition raise :: "error \<Rightarrow> 'a run" where
  "raise e = (\<lambda>w. (Inl e, w))"

definition outcome :: "error + 'a \<Rightarrow> 'a run" where
  "outcome r = (\<lambda>w. (r, w))"

definition andthen :: "'a run \<Rightarrow> ('a \<Rightarrow> 'b run) \<Rightarrow> 'b run" where
  "andthen m f = (\<lambda>w. case m w of (Inl e, w') \<Rightarrow> (Inl e, w') | (Inr x, w') \<Rightarrow> f x w')"

text \<open>
  What the module takes from outside: the provider behind the XML-RPC handle (its answer
  may depend on the requests made so far), the markup parser, the configuration of the
  host framework, Python's conversions, the file system, and the host's polling and
  bootstrap routines. \<open>wait_for_ip\<close> receives the query already applied to its
  arguments, then the timeout and the interval.
\<close>

record env =
  respond :: "server \<Rightarrow> (rpc \<times> response) list \<Rightarrow> rpc \<Rightarrow> response"
  etree_XML :: "pyval \<Rightarrow> error + xml"
  provider_config :: "string \<Rightarrow> pyval"
  xmlrpc_ServerProxy :: "pyval \<Rightarrow> error + server"
  get_cloud_config_value :: "string \<Rightarrow> (string \<rightharpoonup> pyval) \<Rightarrow> pyval \<Rightarrow> pyval"
  is_profile_configured :: "pyval \<Rightarrow> error + pyval"
  opts :: "string \<rightharpoonup> pyval"
  active_provider_name :: string
  int_of_str :: "string \<Rightarrow> int option"
  str_of_compound :: "pyval \<Rightarrow> string"
  repr :: "pyval \<Rightarrow> string"
  isfile :: "pyval \<Rightarrow> bool"
  fopen_read :: "pyval \<Rightarrow> error + pyval"
  wait_for_ip :: "pyval run \<Rightarrow> pyval \<Rightarrow> pyval \<Rightarrow> pyval run"
  bootstrap :: "(string \<rightharpoonup> pyval) \<Rightarrow> error + pyval"

text \<open>\<open>str(v)\<close> and \<open>int(v)\<close>.\<close>

definition str_int :: "int \<Rightarrow> string" where
  "str_int n = (if n < 0 then ''-'' @ str_nat (nat (- n)) else str_nat (nat n))"

definition py_str :: "env \<Rightarrow> pyval \<Rightarrow> string" where
  "py_str env v =
     (case v of
        PStr s \<Rightarrow> s
      | PNone \<Rightarrow> ''None''
      | PBool b \<Rightarrow> (if b then ''True'' else ''False'')
      | PInt n \<Rightarrow> str_int n
      | _ \<Rightarrow> str_of_compound env v)"

definition py_int :: "env \<Rightarrow> pyval \<Rightarrow> error + int" where
  "py_int env v =
     (case v of
        PInt n \<Rightarrow> Inr n
      | PBool b \<Rightarrow> Inr (if b then 1 else 0)
      | PStr s \<Rightarrow> (case int_of_str env s of Some n \<Rightarrow> Inr n | None \<Rightarrow> Inl ValueError)
      | _ \<Rightarrow> Inl TypeError)"

text \<open>The collaborators that only act on the world.\<close>

definition fire_event :: "string \<Rightarrow> string \<Rightarrow> unit run" where
  "fire_event description event_tag =
     (\<lambda>w. (Inr (), w\<lparr>events := events w @ [(description, event_tag)]\<rparr>))"

definition time_sleep :: "rat \<Rightarrow> unit run" where
  "time_sleep seconds = (\<lambda>w. (Inr (), w\<lparr>sleeps := sleeps w @ [seconds]\<rparr>))"

definition cache_node :: "pyval \<Rightarrow> unit run" where
  "cache_node node = (\<lambda>w. (Inr (), w\<lparr>node_cache := node_cache w @ [node]\<rparr>))"

definition delete_minion_cachedir :: "pyval \<Rightarrow> string \<Rightarrow> unit run" where
  "delete_minion_cachedir name provider =
     (\<lambda>w. (Inr (), w\<lparr>cachedir_purges := cachedir_purges w @ [(name, provider)]\<rparr>))"

definition run_bootstrap :: "env \<Rightarrow> (string \<rightharpoonup> pyval) \<Rightarrow> pyval run" where
  "run_bootstrap env vm = (\<lambda>w. (bootstrap env vm, w\<lparr>bootstraps := bootstraps w @ [vm]\<rparr>))"

text \<open>
  A request \<open>server.one.<method>(args)\<close>: the provider's answer is recorded with the
  request; a fault is raised.
\<close>

definition rpc_call :: "env \<Rightarrow> server \<Rightarrow> string \<Rightarrow> pyval list \<Rightarrow> pyval run" where
  "rpc_call env srv m as =
     (\<lambda>w. let r = respond env srv (rpc_log w) (Rpc m as);
              w' = w\<lparr>rpc_log := rpc_log w @ [(Rpc m as, r)]\<rparr>
          in case r of Fault e \<Rightarrow> (Inl e, w') | Reply v \<Rightarrow> (Inr v, w'))"

section \<open>The transport accessor and the resource listers\<close>

text \<open>
  \<open>_get_xml_rpc\<close>: reads the endpoint, the user and the password from the provider
  configuration and opens the handle.
\<close>

definition get_xml_rpc :: "env \<Rightarrow> error + (server \<times> pyval \<times> pyval)" where
  "get_xml_rpc env =
     (let xml_rpc = provider_config env ''xml_rpc'';
          user = provider_config env ''user'';
          password = provider_config env ''password''
      in sum_then (xmlrpc_ServerProxy env xml_rpc) (\<lambda>srv. Inr (srv, user, password)))"

text \<open>
  The first lines of the private listers:
  \<^verbatim>\<open>
    if not server or not user or not password:
        server, user, password = _get_xml_rpc()
  \<close>
  An absent handle is \<open>None\<close>; a handle that is given counts as true.
\<close>

definition credentials ::
  "env \<Rightarrow> server option \<Rightarrow> pyval \<Rightarrow> pyval \<Rightarrow> error + (server \<times> pyval \<times> pyval)" where
  "credentials env srv user password =
     (case srv of
        None \<Rightarrow> get_xml_rpc env
      | Some s \<Rightarrow>
          if \<not> truthy user \<or> \<not> truthy password then get_xml_rpc env
          else Inr (s, user, password))"

text \<open>
  The loop shared by the listers that flatten every element of the pool:
  \<^verbatim>\<open>
    images = {}
    for image in etree.XML(image_pool):
        images[image.find('NAME').text] = _xml_to_dict(image)
    return images
  \<close>
\<close>

fun pool_loop :: "xml list \<Rightarrow> pool \<Rightarrow> error + pool" where
  "pool_loop [] images = Inr images"
| "pool_loop (elem # rest) images =
     sum_then (find_text elem ''NAME'')
       (\<lambda>name. pool_loop rest (dict_set images name (PDict (xml_to_dict elem))))"

text \<open>
  The request for a pool, the second element of the answer, and its parsing:
  \<open>etree.XML(server.one.<kind>pool.info(auth, ...)[1])\<close>.
\<close>

definition pool_info :: "env \<Rightarrow> server \<Rightarrow> string \<Rightarrow> pyval list \<Rightarrow> xml run" where
  "pool_info env srv m as =
     andthen (rpc_call env srv m as) (\<lambda>answer.
     andthen (outcome (getindex answer 1)) (\<lambda>pool_text.
     outcome (etree_XML env pool_text)))"

definition avail_images :: "env \<Rightarrow> string option \<Rightarrow> pool run" where
  "avail_images env call =
     (if call = Some ''action'' then
        raise (SaltCloudSystemExit
          (''The avail_images function must be called with ''
           @ ''-f or --function, or with the --list-images option''))
      else
        andthen (outcome (get_xml_rpc env)) (\<lambda>(srv, user, password).
        andthen (outcome (join_colon user password)) (\<lambda>auth.
        andthen (pool_info env srv ''one.imagepool.info''
                   [PStr auth, PInt (- 1), PInt (- 1), PInt (- 1)]) (\<lambda>image_pool.
        outcome (pool_loop (children image_pool) [])))))"

definition avail_locations :: "env \<Rightarrow> string option \<Rightarrow> pool run" where
  "avail_locations env call =
     (if call = Some ''action'' then
        raise (SaltCloudSystemExit
          (''The avail_locations function must be called with ''
           @ ''-f or --function, or with the --list-locations option''))
      else
        andthen (outcome (get_xml_rpc env)) (\<lambda>(srv, user, password).
        andthen (outcome (join_colon user password)) (\<lambda>auth.
        andthen (pool_info env srv ''one.hostpool.info'' [PStr auth]) (\<lambda>host_pool.
        outcome (pool_loop (children host_pool) [])))))"

definition list_images :: "env \<Rightarrow> server option \<Rightarrow> pyval \<Rightarrow> pyval \<Rightarrow> pool run" where
  "list_images env server user password =
     andthen (outcome (credentials env server user password)) (\<lambda>(srv, user, password).
     andthen (outcome (join_colon user password)) (\<lambda>auth.
     andthen (pool_info env srv ''one.imagepool.info''
                [PStr auth, PInt (- 1), PInt (- 1), PInt (- 1)]) (\<lambda>image_pool.
     outcome (pool_loop (children image_pool) []))))"

definition list_security_groups :: "env \<Rightarrow> server option \<Rightarrow> pyval \<Rightarrow> pyval \<Rightarrow> pool run" where
  "list_security_groups env server user password =
     andthen (outcome (credentials env server user password)) (\<lambda>(srv, user, password).
     andthen (outcome (join_colon user password)) (\<lambda>auth.
     andthen (pool_info env srv ''one.secgrouppool.info''
                [PStr auth, PInt (- 1), PInt (- 1), PInt (- 1)]) (\<lambda>secgroup_pool.
     outcome (pool_loop (children secgroup_pool) []))))"

definition list_templates :: "env \<Rightarrow> server option \<Rightarrow> pyval \<Rightarrow> pyval \<Rightarrow> pool run" where
  "list_templates env server user password =
     andthen (outcome (credentials env server user password)) (\<lambda>(srv, user, password).
     andthen (outcome (join_colon user password)) (\<lambda>auth.
     andthen (pool_info env srv ''one.templatepool.info''
                [PStr auth, PInt (- 1), PInt (- 1), PInt (- 1)]) (\<lambda>template_pool.
     outcome (pool_loop (children template_pool) []))))"

definition list_vms :: "env \<Rightarrow> server option \<Rightarrow> pyval \<Rightarrow> pyval \<Rightarrow> pool run" where
  "list_vms env server user password =
     andthen (outcome (credentials env server user password)) (\<lambda>(srv, user, password).
     andthen (outcome (join_colon user password)) (\<lambda>auth.
     andthen (pool_info env srv ''one.vmpool.info''
                [PStr auth, PInt (- 1), PInt (- 1), PInt (- 1), PInt 3]) (\<lambda>vm_pool.
     outcome (pool_loop (children vm_pool) []))))"

definition list_vns :: "env \<Rightarrow> server option \<Rightarrow> pyval \<Rightarrow> pyval \<Rightarrow> pool run" where
  "list_vns env server user password =
     andthen (outcome (credentials env server user password)) (\<lambda>(srv, user, password).
     andthen (outcome (join_colon user password)) (\<lambda>auth.
     andthen (pool_info env srv ''one.vnpool.info''
                [PStr auth, PInt (- 1), PInt (- 1), PInt (- 1)]) (\<lambda>vn_pool.
     outcome (pool_loop (children vn_pool) []))))"

text \<open>
  \<open>_list_nodes\<close>. For every VM the summary record is built first, from the elements
  \<open>NAME\<close>, \<open>TEMPLATE/CPU\<close>, \<open>TEMPLATE/MEMORY\<close>, the \<open>IP\<close> of every \<open>TEMPLATE/NIC\<close>,
  \<open>ID\<close>, \<open>TEMPLATE/TEMPLATE_ID\<close> and \<open>STATE\<close> (a missing element is an
  \<open>AttributeError\<close>); in a full listing it is then replaced by the flattened VM.
\<close>

fun nic_ips :: "xml list \<Rightarrow> error + pyval list" where
  "nic_ips [] = Inr []"
| "nic_ips (nic # rest) =
     sum_then (find_text nic ''IP'') (\<lambda>ip.
     sum_then (nic_ips rest) (\<lambda>ips. Inr (ip # ips)))"

definition find_template :: "xml \<Rightarrow> error + xml" where
  "find_template vm =
     (case xml_find vm ''TEMPLATE'' of None \<Rightarrow> Inl AttributeError | Some t \<Rightarrow> Inr t)"

definition node_summary :: "xml \<Rightarrow> pyval \<Rightarrow> error + pyval" where
  "node_summary vm name =
     sum_then (find_template vm) (\<lambda>template.
     sum_then (find_text template ''CPU'') (\<lambda>cpu_size.
     sum_then (find_text template ''MEMORY'') (\<lambda>memory_size.
     sum_then (nic_ips (xml_findall template ''NIC'')) (\<lambda>private_ips.
     sum_then (find_text vm ''ID'') (\<lambda>vm_id.
     sum_then (find_text template ''TEMPLATE_ID'') (\<lambda>image.
     sum_then (find_text vm ''STATE'') (\<lambda>state.
     Inr (PDict
       [(''id'', vm_id),
        (''image'', image),
        (''name'', name),
        (''size'', PDict [(''cpu'', cpu_size), (''memory'', memory_size)]),
        (''state'', state),
        (''private_ips'', PList private_ips),
        (''public_ips'', PList [])]))))))))"

fun nodes_loop :: "bool \<Rightarrow> xml list \<Rightarrow> pool \<Rightarrow> error + pool" where
  "nodes_loop full [] vms = Inr vms"
| "nodes_loop full (vm # rest) vms =
     sum_then (find_text vm ''NAME'') (\<lambda>name.
     sum_then (node_summary vm name) (\<lambda>summary.
     nodes_loop full rest
       (if full then dict_set (dict_set vms name summary) name (PDict (xml_to_dict vm))
        else dict_set vms name summary)))"

definition private_list_nodes :: "env \<Rightarrow> bool \<Rightarrow> pool run" where
  "private_list_nodes env full =
     andthen (outcome (get_xml_rpc env)) (\<lambda>(srv, user, password).
     andthen (outcome (join_colon user password)) (\<lambda>auth.
     andthen (pool_info env srv ''one.vmpool.info''
                [PStr auth, PInt (- 1), PInt (- 1), PInt (- 1), PInt (- 1)]) (\<lambda>vm_pool.
     outcome (nodes_loop full (children vm_pool) []))))"

definition list_nodes :: "env \<Rightarrow> string option \<Rightarrow> pool run" where
  "list_nodes env call =
     (if call = Some ''action'' then
        raise (SaltCloudException
          ''The list_nodes function must be called with -f or --function.'')
      else private_list_nodes env False)"

definition list_nodes_full :: "env \<Rightarrow> string option \<Rightarrow> pool run" where
  "list_nodes_full env call =
     (if call = Some ''action'' then
        raise (SaltCloudSystemExit
          ''The list_nodes_full function must be called with -f or --function.'')
      else private_list_nodes env True)"

section \<open>Lookup by name\<close>

text \<open>
  \<open>_get_node\<close>:
  \<^verbatim>\<open>
    attempts = 10
    while attempts >= 0:
        try:
            return list_nodes_full()[name]
        except KeyError:
            attempts -= 1
            log.debug(...)
            time.sleep(0.5)
    return {}
  \<close>
  The loop is a recursion on the attempts left. Only a \<open>KeyError\<close> is caught; any other
  error leaves the function. Calls of the logger are not modelled.
\<close>

function get_node_loop :: "env \<Rightarrow> pyval \<Rightarrow> int \<Rightarrow> pyval run" where
  "get_node_loop env name attempts =
     (if attempts \<ge> 0 then
        (\<lambda>w. case andthen (list_nodes_full env None)
                      (\<lambda>nodes. outcome (pool_getitem nodes name)) w of
               (Inl KeyError, w') \<Rightarrow>
                 andthen (time_sleep (1 / 2))
                   (\<lambda>_. get_node_loop env name (attempts - 1)) w'
             | (r, w') \<Rightarrow> (r, w'))
      else ok (PDict []))"
  by pat_completeness auto
termination
  by (relation "measure (\<lambda>(env, name, attempts). nat (attempts + 1))") auto

declare get_node_loop.simps [simp del]

definition get_node :: "env \<Rightarrow> pyval \<Rightarrow> pyval run" where
  "get_node env name = get_node_loop env name 10"

text \<open>\<open>_get_template\<close>: the same loop over \<open>_list_templates\<close>.\<close>

function get_template_loop ::
  "env \<Rightarrow> pyval \<Rightarrow> server option \<Rightarrow> pyval \<Rightarrow> pyval \<Rightarrow> int \<Rightarrow> pyval run" where
  "get_template_loop env name server user password attempts =
     (if attempts \<ge> 0 then
        (\<lambda>w. case andthen (list_templates env server user password)
                      (\<lambda>templates. outcome (pool_getitem templates name)) w of
               (Inl KeyError, w') \<Rightarrow>
                 andthen (time_sleep (1 / 2))
                   (\<lambda>_. get_template_loop env name server user password (attempts - 1)) w'
             | (r, w') \<Rightarrow> (r, w'))
      else ok (PDict []))"
  by pat_completeness auto
termination
  by (relation "measure (\<lambda>(env, name, server, user, password, attempts). nat (attempts + 1))")
    auto

declare get_template_loop.simps [simp del]

definition get_template ::
  "env \<Rightarrow> pyval \<Rightarrow> server option \<Rightarrow> pyval \<Rightarrow> pyval \<Rightarrow> pyval run" where
  "get_template env name server user password =
     get_template_loop env name server user password 10"

definition show_instance :: "env \<Rightarrow> pyval \<Rightarrow> string option \<Rightarrow> pyval run" where
  "show_instance env name call =
     (if call \<noteq> Some ''action'' then
        raise (SaltCloudSystemExit
          ''The show_instance action must be called with -a or --action.'')
      else
        andthen (get_node env name) (\<lambda>node.
        andthen (cache_node node) (\<lambda>_.
        ok node)))"

text \<open>
  The functions that return the identifier of a named resource. \<open>kwargs\<close> is a
  dictionary or \<open>None\<close>; \<open>kwargs.get('name', None)\<close> is \<open>None\<close> for an absent key.
\<close>

definition kwargs_get :: "(string \<rightharpoonup> pyval) option \<Rightarrow> string \<Rightarrow> pyval" where
  "kwargs_get kwargs k =
     (case kwargs of
        None \<Rightarrow> PNone
      | Some d \<Rightarrow> (case d k of None \<Rightarrow> PNone | Some v \<Rightarrow> v))"

definition get_image_id :: "env \<Rightarrow> (string \<rightharpoonup> pyval) option \<Rightarrow> string option \<Rightarrow> pyval run" where
  "get_image_id env kwargs call =
     (if call = Some ''action'' then
        raise (SaltCloudSystemExit
          ''The get_image_id function must be called with -f or --function.'')
      else
        let name = kwargs_get kwargs ''name'' in
        if name = PNone then
          raise (SaltCloudSystemExit ''The get_image_id function requires a name.'')
        else
          andthen (list_images env None PNone PNone) (\<lambda>images.
          outcome (sum_then (pool_getitem images name) (\<lambda>r. getitem r ''id''))))"

definition get_secgroup_id :: "env \<Rightarrow> (string \<rightharpoonup> pyval) option \<Rightarrow> string option \<Rightarrow> pyval run" where
  "get_secgroup_id env kwargs call =
     (if call = Some ''action'' then
        raise (SaltCloudSystemExit
          ''The get_secgroup_id function must be called with -f or --function.'')
      else
        let name = kwargs_get kwargs ''name'' in
        andthen (list_security_groups env None PNone PNone) (\<lambda>groups.
        outcome (sum_then (pool_getitem groups name) (\<lambda>r. getitem r ''id''))))"

definition get_template_id :: "env \<Rightarrow> (string \<rightharpoonup> pyval) option \<Rightarrow> string option \<Rightarrow> pyval run" where
  "get_template_id env kwargs call =
     (if call = Some ''action'' then
        raise (SaltCloudSystemExit
          ''The list_nodes_full function must be called with -f or --function.'')
      else
        let name = kwargs_get kwargs ''name'' in
        if name = PNone then
          raise (SaltCloudSystemExit ''The get_template_id function requires a name.'')
        else
          andthen (get_template env name None PNone PNone) (\<lambda>r.
          outcome (getitem r ''id'')))"

definition get_vm_id :: "env \<Rightarrow> (string \<rightharpoonup> pyval) option \<Rightarrow> string option \<Rightarrow> pyval run" where
  "get_vm_id env kwargs call =
     (if call = Some ''action'' then
        raise (SaltCloudSystemExit
          ''The get_vm_id function must be called with -f or --function.'')
      else
        let name = kwargs_get kwargs ''name'' in
        if name = PNone then
          raise (SaltCloudSystemExit ''The get_vm_id function requires a name.'')
        else
          andthen (list_vms env None PNone PNone) (\<lambda>vms.
          outcome (sum_then (pool_getitem vms name) (\<lambda>r. getitem r ''id''))))"

definition get_vn_id :: "env \<Rightarrow> (string \<rightharpoonup> pyval) option \<Rightarrow> string option \<Rightarrow> pyval run" where
  "get_vn_id env kwargs call =
     (if call = Some ''action'' then
        raise (SaltCloudSystemExit
          ''The get_vn_id function must be called with -f or --function.'')
      else
        let name = kwargs_get kwargs ''name'' in
        if name = PNone then
          raise (SaltCloudSystemExit ''The get_vn_id function requires a name.'')
        else
          andthen (list_vns env None PNone PNone) (\<lambda>vns.
          outcome (sum_then (pool_getitem vns name) (\<lambda>r. getitem r ''id''))))"

section \<open>The update operations\<close>

text \<open>
  The result record of an action: the action's name and the three elements of the
  provider's answer. A shorter answer is an \<open>IndexError\<close>.
\<close>

definition action_result :: "string \<Rightarrow> string \<Rightarrow> string \<Rightarrow> pyval \<Rightarrow> error + pyval" where
  "action_result action flag_key id_key answer =
     sum_then (getindex answer 0) (\<lambda>flag.
     sum_then (getindex answer 1) (\<lambda>subject.
     sum_then (getindex answer 2) (\<lambda>error_code.
     Inr (PDict
       [(''action'', PStr action),
        (flag_key, flag),
        (id_key, subject),
        (''error_code'', error_code)]))))"





section \<open>Destroying and creating a VM\<close>

definition destroy :: "env \<Rightarrow> pyval \<Rightarrow> string option \<Rightarrow> pyval run" where
  "destroy env name call =
     (if call = Some ''function'' then
        raise (SaltCloudSystemExit
          (''The destroy action must be called with -d, --destroy, '' @ ''-a or --action.''))
      else
        andthen (fire_event ''destroying instance''
                   (''salt/cloud/'' @ py_str env name @ ''/destroying'')) (\<lambda>_.
        andthen (outcome (get_xml_rpc env)) (\<lambda>(srv, user, password).
        andthen (outcome (join_colon user password)) (\<lambda>auth.
        andthen (show_instance env name (Some ''action'')) (\<lambda>data.
        andthen (outcome (sum_then (getitem data ''id'') (py_int env))) (\<lambda>vm_id.
        andthen (rpc_call env srv ''one.vm.action''
                   [PStr auth, PStr ''delete'', PInt vm_id]) (\<lambda>node.
        andthen (fire_event ''destroyed instance''
                   (''salt/cloud/'' @ py_str env name @ ''/destroyed'')) (\<lambda>_.
        andthen (if opts env ''update_cachedir'' = Some (PBool True) then
                   delete_minion_cachedir name
                     (takeWhile (\<lambda>c. c \<noteq> CHR '':'') (active_provider_name env))
                 else ok ()) (\<lambda>_.
        outcome (action_result ''vm.delete'' ''deleted'' ''node_id'' node))))))))))"

text \<open>
  The VM description \<open>vm_\<close> is a dictionary; \<open>vm_[k]\<close> raises a \<open>KeyError\<close> for an
  absent key.
\<close>

type_synonym vm = "string \<rightharpoonup> pyval"

definition vm_getitem :: "vm \<Rightarrow> string \<Rightarrow> error + pyval" where
  "vm_getitem vm k = (case vm k of None \<Rightarrow> Inl KeyError | Some v \<Rightarrow> Inr v)"

text \<open>
  \<open>get_image\<close> and \<open>get_location\<close>: the first entry of the pool whose name or id is the
  configured value. The pool is walked in insertion order.
\<close>

fun get_image_loop :: "env \<Rightarrow> pool \<Rightarrow> string \<Rightarrow> error + pyval" where
  "get_image_loop env [] vm_image =
     Inl (SaltCloudNotFound
       (''The specified image, '' @ repr env (PStr vm_image) @ '', could not be found.''))"
| "get_image_loop env ((key, entry) # rest) vm_image =
     sum_then (getitem entry ''name'') (\<lambda>entry_name.
     sum_then (getitem entry ''id'') (\<lambda>entry_id.
     if PStr vm_image = entry_name \<or> PStr vm_image = entry_id then Inr entry_id
     else get_image_loop env rest vm_image))"

definition get_image :: "env \<Rightarrow> vm \<Rightarrow> pyval run" where
  "get_image env vm =
     andthen (avail_images env None) (\<lambda>images.
     let vm_image = py_str env (get_cloud_config_value env ''image'' vm PNone)
     in outcome (get_image_loop env images vm_image))"

fun get_location_loop :: "env \<Rightarrow> pool \<Rightarrow> string \<Rightarrow> error + pyval" where
  "get_location_loop env [] vm_location =
     Inl (SaltCloudNotFound
       (''The specified location, '' @ repr env (PStr vm_location) @ '', could not be found.''))"
| "get_location_loop env ((key, entry) # rest) vm_location =
     sum_then (getitem entry ''name'') (\<lambda>entry_name.
     sum_then (getitem entry ''id'') (\<lambda>entry_id.
     if PStr vm_location = entry_name \<or> PStr vm_location = entry_id then Inr entry_id
     else get_location_loop env rest vm_location))"

definition get_location :: "env \<Rightarrow> vm \<Rightarrow> pyval run" where
  "get_location env vm =
     andthen (avail_locations env None) (\<lambda>locations.
     let vm_location = py_str env (get_cloud_config_value env ''location'' vm PNone)
     in if vm_location = ''None'' then ok PNone
        else outcome (get_location_loop env locations vm_location))"

text \<open>
  \<open>create\<close>, in the order of the source: the profile check, the request (resolution of
  image and location), the instantiate call, the wait for readiness, and the
  deployment.

  The profile check:
  \<^verbatim>\<open>
    try:
        if config.is_profile_configured(..., vm_['profile']) is False:
            return False
    except AttributeError:
        pass
  \<close>
  The result is whether \<open>create\<close> goes on.
\<close>

definition profile_check :: "env \<Rightarrow> vm \<Rightarrow> error + bool" where
  "profile_check env vm =
     sum_then (vm_getitem vm ''profile'') (\<lambda>profile.
     case is_profile_configured env profile of
       Inl AttributeError \<Rightarrow> Inr True
     | Inl e \<Rightarrow> Inl e
     | Inr v \<Rightarrow> Inr (v \<noteq> PBool False))"

record create_kwargs =
  k_name :: pyval
  k_image_id :: pyval
  k_region_id :: pyval
  k_private_networking :: pyval

text \<open>
  From the alias of \<open>provider\<close> to the event \<open>requesting instance\<close>: returns the VM
  description, with \<open>provider\<close> renamed to \<open>driver\<close>, and the \<open>kwargs\<close> of the request.
\<close>

definition create_request :: "env \<Rightarrow> vm \<Rightarrow> (vm \<times> create_kwargs) run" where
  "create_request env vm0 =
     (let vm = (case vm0 ''provider'' of
                  None \<Rightarrow> vm0
                | Some p \<Rightarrow> (vm0(''provider'' := None))(''driver'' \<mapsto> p))
      in
      andthen (outcome (vm_getitem vm ''name'')) (\<lambda>name.
      andthen (outcome (vm_getitem vm ''profile'')) (\<lambda>profile.
      andthen (outcome (vm_getitem vm ''driver'')) (\<lambda>driver.
      andthen (outcome (case opts env ''transport'' of
                          None \<Rightarrow> Inl KeyError | Some t \<Rightarrow> Inr t)) (\<lambda>transport.
      andthen (fire_event ''starting create''
                 (''salt/cloud/'' @ py_str env name @ ''/creating'')) (\<lambda>_.
      andthen (get_image env vm) (\<lambda>image_id.
      andthen (get_location env vm) (\<lambda>region_id.
      let private_networking = get_cloud_config_value env ''private_networking'' vm PNone;
          kwargs = \<lparr>k_name = name, k_image_id = image_id, k_region_id = region_id,
                    k_private_networking =
                      PStr (if truthy private_networking then ''true'' else ''false'')\<rparr>
      in
      andthen (fire_event ''requesting instance''
                 (''salt/cloud/'' @ py_str env name @ ''/requesting'')) (\<lambda>_.
      ok (vm, kwargs))))))))))"

text \<open>
  The scheduler requirement and the instantiate call:
  \<^verbatim>\<open>
    region = ''
    if kwargs['region_id'] is not None:
        region = 'SCHED_REQUIREMENTS="ID={0}"'.format(kwargs['region_id'])
    try:
        server, user, password = _get_xml_rpc()
        auth = ':'.join([user, password])
        server.one.template.instantiate(auth, int(kwargs['image_id']),
                                        kwargs['name'], False, region)
    except Exception as exc:
        log.error(...)
        return False
  \<close>
  The result is whether \<open>create\<close> goes on.
\<close>

definition sched_requirements :: "env \<Rightarrow> pyval \<Rightarrow> string" where
  \<open>sched_requirements env region_id =
     (if region_id \<noteq> PNone then
        ''SCHED_REQUIREMENTS="ID='' @ py_str env region_id @ ''"''
      else [])\<close>

definition create_instantiate :: "env \<Rightarrow> create_kwargs \<Rightarrow> bool run" where
  "create_instantiate env kwargs =
     (let region = sched_requirements env (k_region_id kwargs) in
      (\<lambda>w. case andthen (outcome (get_xml_rpc env)) (\<lambda>(srv, user, password).
                 andthen (outcome (join_colon user password)) (\<lambda>auth.
                 andthen (outcome (py_int env (k_image_id kwargs))) (\<lambda>image_id.
                 rpc_call env srv ''one.template.instantiate''
                   [PStr auth, PInt image_id, k_name kwargs, PBool False, PStr region]))) w of
              (Inl exc, w') \<Rightarrow> (Inr False, w')
            | (Inr _, w') \<Rightarrow> (Inr True, w')))"

text \<open>The query that \<open>create\<close> hands to \<open>wait_for_ip\<close>.\<close>

definition query_node_data :: "env \<Rightarrow> pyval \<Rightarrow> pyval run" where
  "query_node_data env vm_name =
     andthen (show_instance env vm_name (Some ''action'')) (\<lambda>node_data.
     if \<not> truthy node_data then ok (PBool False)
     else
       andthen (outcome (getitem node_data ''state'')) (\<lambda>state.
       if state = PStr ''7'' then ok (PBool False)
       else
         andthen (outcome (getitem node_data ''lcm_state'')) (\<lambda>lcm_state.
         if lcm_state = PStr ''3'' then ok node_data else ok PNone)))"

text \<open>
  The handler of a poll that timed out or failed:
  \<^verbatim>\<open>
        try:
            destroy(vm_['name'])
        except SaltCloudSystemExit:
            pass
        finally:
            raise SaltCloudSystemExit(str(exc))
  \<close>
  \<open>msg\<close> is \<open>str(exc)\<close>, the message of the poll's exception. Whether \<open>destroy\<close>
  returns, raises \<open>SaltCloudSystemExit\<close> (caught) or raises anything else (replaced by
  the \<open>raise\<close> of the \<open>finally\<close> clause), the handler raises \<open>SaltCloudSystemExit\<close>.
\<close>

definition destroy_then_raise :: "env \<Rightarrow> pyval \<Rightarrow> string \<Rightarrow> pyval run" where
  "destroy_then_raise env name msg =
     (\<lambda>w. case destroy env name None w of
            (Inr _, w') \<Rightarrow> (Inl (SaltCloudSystemExit msg), w')
          | (Inl (SaltCloudSystemExit _), w') \<Rightarrow> (Inl (SaltCloudSystemExit msg), w')
          | (Inl _, w') \<Rightarrow> (Inl (SaltCloudSystemExit msg), w'))"

definition create_wait :: "env \<Rightarrow> vm \<Rightarrow> pyval run" where
  "create_wait env vm =
     andthen (outcome (vm_getitem vm ''name'')) (\<lambda>name.
     (\<lambda>w. case wait_for_ip env (query_node_data env name)
                 (get_cloud_config_value env ''wait_for_ip_timeout'' vm (PInt (10 * 60)))
                 (get_cloud_config_value env ''wait_for_ip_interval'' vm (PInt 2)) w of
            (Inl (SaltCloudExecutionTimeout msg), w') \<Rightarrow> destroy_then_raise env name msg w'
          | (Inl (SaltCloudExecutionFailure msg), w') \<Rightarrow> destroy_then_raise env name msg w'
          | (r, w') \<Rightarrow> (r, w')))"

text \<open>
  After a successful poll: the key file check, the private address, the bootstrap and
  the result record.
\<close>

definition private_address :: "pyval \<Rightarrow> error + pyval" where
  "private_address data =
     (case sum_then (getitem data ''private_ips'') (\<lambda>ips. getindex ips 0) of
        Inl KeyError \<Rightarrow>
          sum_then (getitem data ''template'') (\<lambda>template.
          sum_then (getitem template ''nic'') (\<lambda>nic.
          getitem nic ''ip''))
      | r \<Rightarrow> r)"

definition setitem :: "pyval \<Rightarrow> string \<Rightarrow> pyval \<Rightarrow> error + pyval" where
  "setitem d k v =
     (case d of PDict kvs \<Rightarrow> Inr (PDict (dict_set kvs k v)) | _ \<Rightarrow> Inl TypeError)"

definition create_result :: "pyval \<Rightarrow> pyval \<Rightarrow> vm \<Rightarrow> pyval \<Rightarrow> error + pyval" where
  "create_result ret0 data vm private_ip =
     sum_then (getitem data ''id'') (\<lambda>node_id.
     sum_then (setitem ret0 ''id'' node_id) (\<lambda>ret1.
     sum_then (vm_getitem vm ''image'') (\<lambda>vm_image.
     sum_then (setitem ret1 ''image'' vm_image) (\<lambda>ret2.
     sum_then (vm_getitem vm ''name'') (\<lambda>vm_name.
     sum_then (setitem ret2 ''name'' vm_name) (\<lambda>ret3.
     sum_then (sum_then (getitem data ''template'') (\<lambda>t. getitem t ''memory'')) (\<lambda>memory.
     sum_then (setitem ret3 ''size'' memory) (\<lambda>ret4.
     sum_then (getitem data ''state'') (\<lambda>state.
     sum_then (setitem ret4 ''state'' state) (\<lambda>ret5.
     sum_then (setitem ret5 ''private_ips'' private_ip) (\<lambda>ret6.
     setitem ret6 ''public_ips'' (PList []))))))))))))"

definition create_deploy :: "env \<Rightarrow> vm \<Rightarrow> pyval \<Rightarrow> pyval run" where
  "create_deploy env vm0 data =
     (let key_filename = get_cloud_config_value env ''private_key'' vm0 PNone in
      if key_filename \<noteq> PNone \<and> \<not> isfile env key_filename then
        raise (SaltCloudConfigError
          (''The defined key_filename '' @ repr env key_filename @ '' does not exist''))
      else
        andthen (outcome (private_address data)) (\<lambda>private_ip.
        let ssh_username = get_cloud_config_value env ''ssh_username'' vm0 (PStr ''root'');
            vm = vm0(''username'' \<mapsto> ssh_username, ''key_filename'' \<mapsto> key_filename,
                     ''ssh_host'' \<mapsto> private_ip)
        in
        andthen (run_bootstrap env vm) (\<lambda>ret0.
        andthen (outcome (create_result ret0 data vm private_ip)) (\<lambda>ret.
        andthen (outcome (vm_getitem vm ''name'')) (\<lambda>name.
        andthen (outcome (vm_getitem vm ''profile'')) (\<lambda>profile.
        andthen (outcome (vm_getitem vm ''driver'')) (\<lambda>driver.
        andthen (fire_event ''created instance''
                   (''salt/cloud/'' @ py_str env name @ ''/created'')) (\<lambda>_.
        ok ret))))))))"

definition create :: "env \<Rightarrow> vm \<Rightarrow> pyval run" where
  "create env vm0 =
     andthen (outcome (profile_check env vm0)) (\<lambda>configured.
     if \<not> configured then ok (PBool False)
     else
       andthen (create_request env vm0) (\<lambda>(vm, kwargs).
       andthen (create_instantiate env kwargs) (\<lambda>instantiated.
       if \<not> instantiated then ok (PBool False)
       else
         andthen (create_wait env vm) (\<lambda>data.
         create_deploy env vm data))))"

section \<open>The listers and the update operations as families\<close>

text \<open>
  Every resource lister of the module with its arguments, so that a statement can range
  over all of them: the public listers take the call context, the private ones the
  optional handle and credentials, \<open>_list_nodes\<close> the flag \<open>full\<close>.
\<close>

datatype lister =
    Avail_images "string option"
  | Avail_locations "string option"
  | List_nodes "string option"
  | List_nodes_full "string option"
  | Private_list_nodes bool
  | List_images "server option" pyval pyval
  | List_security_groups "server option" pyval pyval
  | List_templates "server option" pyval pyval
  | List_vms "server option" pyval pyval
  | List_vns "server option" pyval pyval

fun run_lister :: "env \<Rightarrow> lister \<Rightarrow> pool run" where
  "run_lister env (Avail_images call) = avail_images env call"
| "run_lister env (Avail_locations call) = avail_locations env call"
| "run_lister env (List_nodes call) = list_nodes env call"
| "run_lister env (List_nodes_full call) = list_nodes_full env call"
| "run_lister env (Private_list_nodes full) = private_list_nodes env full"
| "run_lister env (List_images server user password) = list_images env server user password"
| "run_lister env (List_security_groups server user password) =
     list_security_groups env server user password"
| "run_lister env (List_templates server user password) =
     list_templates env server user password"
| "run_lister env (List_vms server user password) = list_vms env server user password"
| "run_lister env (List_vns server user password) = list_vns env server user password"




section \<open>A concrete provider\<close>

text \<open>
  An environment on which the statements below are exercised: a provider with two VMs
  (\<open>web1\<close>, running, and \<open>bad1\<close>, failed), one image, one host and no template,
  security group or virtual network. The poll of this environment queries the node once:
  a \<open>False\<close> answer is a failure, \<open>None\<close> a timeout.
\<close>

definition leaf :: "string \<Rightarrow> string \<Rightarrow> xml" where
  "leaf t s = Element t (Some s) []"

definition example_vm_pool :: xml where
  "example_vm_pool =
     Element ''VM_POOL'' None
       [Element ''VM'' None
          [leaf ''ID'' ''7'', leaf ''NAME'' ''web1'', leaf ''STATE'' ''3'',
           leaf ''LCM_STATE'' ''3'',
           Element ''TEMPLATE'' None
             [leaf ''CPU'' ''1'', leaf ''MEMORY'' ''512'', leaf ''TEMPLATE_ID'' ''5'',
              Element ''NIC'' None [leaf ''IP'' ''10.0.0.7'']]],
        Element ''VM'' None
          [leaf ''ID'' ''8'', leaf ''NAME'' ''bad1'', leaf ''STATE'' ''7'',
           leaf ''LCM_STATE'' ''0'',
           Element ''TEMPLATE'' None
             [leaf ''CPU'' ''1'', leaf ''MEMORY'' ''512'', leaf ''TEMPLATE_ID'' ''5'']]]"

text \<open>The two VMs, flattened.\<close>

definition example_web1 :: pyval where
  "example_web1 =
     PDict [(''id'', PStr ''7''), (''name'', PStr ''web1''), (''state'', PStr ''3''),
            (''lcm_state'', PStr ''3''),
            (''template'',
             PDict [(''cpu'', PStr ''1''), (''memory'', PStr ''512''),
                    (''template_id'', PStr ''5''),
                    (''nic'', PDict [(''ip'', PStr ''10.0.0.7'')])])]"

definition example_bad1 :: pyval where
  "example_bad1 =
     PDict [(''id'', PStr ''8''), (''name'', PStr ''bad1''), (''state'', PStr ''7''),
            (''lcm_state'', PStr ''0''),
            (''template'',
             PDict [(''cpu'', PStr ''1''), (''memory'', PStr ''512''),
                    (''template_id'', PStr ''5'')])]"

definition example_image_pool :: xml where
  "example_image_pool =
     Element ''IMAGE_POOL'' None
       [Element ''IMAGE'' None [leaf ''ID'' ''5'', leaf ''NAME'' ''ubuntu'']]"

definition example_host_pool :: xml where
  "example_host_pool =
     Element ''HOST_POOL'' None
       [Element ''HOST'' None [leaf ''ID'' ''2'', leaf ''NAME'' ''host1'']]"

definition example_respond :: "server \<Rightarrow> (rpc \<times> response) list \<Rightarrow> rpc \<Rightarrow> response" where
  "example_respond srv history request =
     (let m = rpc_method request in
      if m = ''one.vmpool.info'' then Reply (PList [PBool True, PStr ''vms''])
      else if m = ''one.imagepool.info'' then Reply (PList [PBool True, PStr ''images''])
      else if m = ''one.hostpool.info'' then Reply (PList [PBool True, PStr ''hosts''])
      else if m = ''one.templatepool.info'' \<or> m = ''one.secgrouppool.info''
              \<or> m = ''one.vnpool.info'' then Reply (PList [PBool True, PStr ''none''])
      else if m = ''one.vm.action'' then
        (case drop 2 (rpc_args request) of
           subject # _ \<Rightarrow> Reply (PList [PBool True, subject, PInt 0])
         | [] \<Rightarrow> Fault (OtherError ''missing argument''))
      else if m = ''one.template.instantiate'' then Reply (PList [PBool True, PInt 9, PInt 0])
      else if m = ''one.image.update'' \<or> m = ''one.secgroup.update''
              \<or> m = ''one.template.update'' then
        (case drop 1 (rpc_args request) of
           subject # _ \<Rightarrow> Reply (PList [PBool True, subject, PInt 0])
         | [] \<Rightarrow> Fault (OtherError ''missing argument''))
      else Fault (OtherError ''unknown method''))"

definition example_XML :: "pyval \<Rightarrow> error + xml" where
  "example_XML pool_text =
     (if pool_text = PStr ''vms'' then Inr example_vm_pool
      else if pool_text = PStr ''images'' then Inr example_image_pool
      else if pool_text = PStr ''hosts'' then Inr example_host_pool
      else if pool_text = PStr ''none'' then Inr (Element ''POOL'' None [])
      else Inl (OtherError ''XMLSyntaxError''))"

definition example_wait_for_ip :: "pyval run \<Rightarrow> pyval \<Rightarrow> pyval \<Rightarrow> pyval run" where
  "example_wait_for_ip query timeout interval =
     (\<lambda>w. case query w of
            (Inr (PBool False), w') \<Rightarrow>
              (Inl (SaltCloudExecutionFailure ''Too many failures occurred''), w')
          | (Inr PNone, w') \<Rightarrow> (Inl (SaltCloudExecutionTimeout ''Unable to get IP''), w')
          | (r, w') \<Rightarrow> (r, w'))"

definition example_env :: env where
  "example_env =
     \<lparr>respond = example_respond,
      etree_XML = example_XML,
      provider_config =
        (\<lambda>k. if k = ''xml_rpc'' then PStr ''http://localhost:2633/RPC2''
              else if k = ''user'' then PStr ''oneadmin''
              else if k = ''password'' then PStr ''secret''
              else PNone),
      xmlrpc_ServerProxy = (\<lambda>url. Inr (ServerProxy url)),
      get_cloud_config_value = (\<lambda>k vm dflt. case vm k of None \<Rightarrow> dflt | Some v \<Rightarrow> v),
      is_profile_configured = (\<lambda>profile. Inr (PBool True)),
      opts = [''transport'' \<mapsto> PStr ''zeromq''],
      active_provider_name = ''my-opennebula-config:opennebula'',
      int_of_str =
        (\<lambda>s. if s = ''5'' then Some 5 else if s = ''7'' then Some 7
              else if s = ''8'' then Some 8 else None),
      str_of_compound = (\<lambda>v. ''{}''),
      repr = (\<lambda>v. case v of PStr s \<Rightarrow> ''<'' @ s @ ''>'' | _ \<Rightarrow> ''<>''),
      isfile = (\<lambda>path. False),
      fopen_read = (\<lambda>path. Inr (PStr ''NAME = x'')),
      wait_for_ip = example_wait_for_ip,
      bootstrap = (\<lambda>vm. Inr (PDict []))\<rparr>"

definition empty_world :: world where
  "empty_world =
     \<lparr>rpc_log = [], events = [], sleeps = [], node_cache = [], cachedir_purges = [],
      bootstraps = []\<rparr>"

definition example_vm :: "string \<Rightarrow> vm" where
  "example_vm name =
     [''name'' \<mapsto> PStr name, ''profile'' \<mapsto> PStr ''small'', ''provider'' \<mapsto> PStr ''opennebula'',
      ''image'' \<mapsto> PStr ''ubuntu'', ''location'' \<mapsto> PStr ''host1'',
      ''private_key'' \<mapsto> PStr ''/etc/salt/missing.pem'']"

section \<open>Unfolding rules\<close>

lemmas run_defs = andthen_def ok_def raise_def outcome_def

lemmas example_defs = example_env_def example_respond_def example_XML_def example_vm_pool_def
  example_image_pool_def example_host_pool_def leaf_def empty_world_def example_wait_for_ip_def
  example_vm_def

lemmas lister_defs = list_templates_def credentials_def get_xml_rpc_def join_colon_def
  pool_info_def rpc_call_def getindex_def sum_then_def Let_def list_nodes_full_def
  private_list_nodes_def node_summary_def find_text_def xml_find_def xml_findall_def
  find_template_def text_value_def pool_getitem_def

section \<open>Properties of the flattener\<close>

subsection \<open>The key loop\<close>

lemma unique_key_fresh: "unique_key dicts key idx \<notin> set (map fst dicts)"
  by (induction dicts key idx rule: unique_key.induct) (subst unique_key.simps, simp)

lemma unique_key_prefix: "prefix key (unique_key dicts key idx)"
proof (induction dicts key idx rule: unique_key.induct)
  case (1 dicts key idx)
  show ?case
  proof (cases "key \<in> set (map fst dicts)")
    case True
    then have "prefix (key @ str_nat idx) (unique_key dicts (key @ str_nat idx) (idx + 1))"
      by (rule "1.IH")
    then have "prefix key (unique_key dicts (key @ str_nat idx) (idx + 1))"
      by (rule append_prefixD)
    with True show ?thesis by (subst unique_key.simps) simp
  next
    case False
    then show ?thesis by (subst unique_key.simps) simp
  qed
qed

lemma unique_key_absent: "key \<notin> set (map fst dicts) \<Longrightarrow> unique_key dicts key idx = key"
  by (subst unique_key.simps) simp

lemma unique_key_second:
  "key \<in> set (map fst dicts) \<Longrightarrow> key @ str_nat idx \<notin> set (map fst dicts) \<Longrightarrow>
   unique_key dicts key idx = key @ str_nat idx"
  by (subst unique_key.simps, simp, subst unique_key.simps, simp)

lemma str_nat_1: "str_nat (Suc 0) = ''1''"
  by (subst str_nat.simps) (simp add: digit_char_def)

lemma dict_set_fresh: "k \<notin> set (map fst d) \<Longrightarrow> dict_set d k v = d @ [(k, v)]"
  by (induction d) auto

subsection \<open>The loop over the children\<close>

lemma loop_new_entries: "xml_to_dict_loop cs dicts = dicts @ new_entries cs dicts"
proof (induction cs arbitrary: dicts)
  case Nil
  show ?case by simp
next
  case (Cons c cs)
  show ?case
    by (simp add: Let_def dict_set_fresh unique_key_fresh item_value_def Cons.IH del: set_map)
qed

lemma xml_to_dict_new_entries: "xml_to_dict xml = new_entries (children xml) []"
  by (cases xml) (simp add: loop_new_entries)

lemma length_new_entries: "length (new_entries cs dicts) = length cs"
  by (induction cs arbitrary: dicts) (simp_all add: Let_def)

lemma values_new_entries: "map snd (new_entries cs dicts) = map item_value cs"
  by (induction cs arbitrary: dicts) (simp_all add: Let_def)

lemma distinct_new_entries:
  "distinct (map fst dicts) \<Longrightarrow> distinct (map fst (dicts @ new_entries cs dicts))"
proof (induction cs arbitrary: dicts)
  case Nil
  then show ?case by simp
next
  case (Cons c cs)
  let ?kv = "(unique_key dicts (lower (tag c)) 1, item_value c)"
  have "distinct (map fst (dicts @ [?kv]))"
    using Cons.prems unique_key_fresh [of dicts "lower (tag c)" 1] by simp
  then have "distinct (map fst ((dicts @ [?kv]) @ new_entries cs (dicts @ [?kv])))"
    by (rule Cons.IH)
  then show ?case by (simp add: Let_def)
qed

lemma prefix_new_entries:
  "list_all2 (\<lambda>kv item. prefix (lower (tag item)) (fst kv)) (new_entries cs dicts) cs"
  by (induction cs arbitrary: dicts) (simp_all add: Let_def unique_key_prefix)

text \<open>
  C6. Flattening an element gives one entry per child, in sibling order: as many entries
  as children, under pairwise distinct keys (so no child is merged with another or lost),
  each key beginning with the child's lower-cased tag; the entry of a child without text
  is the flattening of that child, and the entry of a child with text is its text.
\<close>

theorem xml_to_dict_one_entry_per_child:
  "length (xml_to_dict xml) = length (children xml)
   \<and> distinct (map fst (xml_to_dict xml))
   \<and> list_all2 (\<lambda>kv item. prefix (lower (tag item)) (fst kv)) (xml_to_dict xml) (children xml)
   \<and> map snd (xml_to_dict xml)
       = map (\<lambda>item. case text_of item of None \<Rightarrow> PDict (xml_to_dict item) | Some s \<Rightarrow> PStr s)
           (children xml)"
proof -
  have "distinct (map fst ([] @ new_entries (children xml) []))"
    by (rule distinct_new_entries) simp
  then have "distinct (map fst (xml_to_dict xml))"
    by (simp add: xml_to_dict_new_entries)
  moreover have "map snd (xml_to_dict xml) = map item_value (children xml)"
    by (simp add: xml_to_dict_new_entries values_new_entries)
  moreover have "item_value = (\<lambda>item. case text_of item of None \<Rightarrow> PDict (xml_to_dict item) | Some s \<Rightarrow> PStr s)"
    by (rule ext) (simp add: item_value_def)
  ultimately show ?thesis
    by (simp add: xml_to_dict_new_entries length_new_entries prefix_new_entries)
qed

subsection \<open>Siblings sharing a tag\<close>

lemma tkeys_Nil: "tkeys t [] dicts = []"
  by (simp add: tkeys_def)

lemma tkeys_Cons:
  "tkeys t (c # cs) dicts =
     (let kv = (unique_key dicts (lower (tag c)) 1, item_value c)
      in if lower (tag c) = t then fst kv # tkeys t cs (dicts @ [kv]) else tkeys t cs (dicts @ [kv]))"
  by (simp add: tkeys_def Let_def)

lemma incomparable_key:
  assumes "\<not> prefix u t" and "\<not> prefix t u" and "prefix u k"
  shows "\<not> prefix t k"
  using assms prefix_same_cases by blast

lemma tkeys_second:
  assumes "\<forall>c\<in>set cs. lower (tag c) \<noteq> t \<longrightarrow>
             \<not> prefix (lower (tag c)) t \<and> \<not> prefix t (lower (tag c))"
    and "t \<in> set (map fst dicts)"
    and "\<forall>k\<in>set (map fst dicts). prefix t k \<longrightarrow> k = t"
  shows "take 1 (tkeys t cs dicts) = take (length (tkeys t cs dicts)) [t @ ''1'']"
  using assms
proof (induction cs arbitrary: dicts)
  case Nil
  show ?case by (simp add: tkeys_Nil)
next
  case (Cons c cs)
  let ?u = "lower (tag c)"
  let ?k = "unique_key dicts ?u 1"
  let ?kv = "(?k, item_value c)"
  show ?case
  proof (cases "?u = t")
    case True
    have "t @ ''1'' \<notin> set (map fst dicts)"
    proof
      assume "t @ ''1'' \<in> set (map fst dicts)"
      with Cons.prems(3) have "prefix t (t @ ''1'') \<longrightarrow> t @ ''1'' = t" by blast
      then show False by simp
    qed
    then have "?k = t @ ''1''"
      using True Cons.prems(2) unique_key_second [of t dicts 1] by (simp add: str_nat_1)
    then show ?thesis
      using True by (simp add: tkeys_Cons)
  next
    case False
    have inc: "\<not> prefix ?u t" "\<not> prefix t ?u"
      using Cons.prems(1) False by simp_all
    have "\<not> prefix t ?k"
      using inc unique_key_prefix [of ?u dicts 1] by (rule incomparable_key)
    then have keep: "\<forall>k\<in>set (map fst (dicts @ [?kv])). prefix t k \<longrightarrow> k = t"
      using Cons.prems(3) by auto
    have "take 1 (tkeys t cs (dicts @ [?kv])) = take (length (tkeys t cs (dicts @ [?kv]))) [t @ ''1'']"
    proof (rule Cons.IH)
      show "\<forall>c\<in>set cs. lower (tag c) \<noteq> t \<longrightarrow>
             \<not> prefix (lower (tag c)) t \<and> \<not> prefix t (lower (tag c))"
        using Cons.prems(1) by simp
      show "t \<in> set (map fst (dicts @ [?kv]))"
        using Cons.prems(2) by simp
      show "\<forall>k\<in>set (map fst (dicts @ [?kv])). prefix t k \<longrightarrow> k = t"
        by (rule keep)
    qed
    then show ?thesis
      using False by (simp add: tkeys_Cons)
  qed
qed

lemma tkeys_first:
  assumes "\<forall>c\<in>set cs. lower (tag c) \<noteq> t \<longrightarrow>
             \<not> prefix (lower (tag c)) t \<and> \<not> prefix t (lower (tag c))"
    and "\<forall>k\<in>set (map fst dicts). \<not> prefix t k"
  shows "take 2 (tkeys t cs dicts) = take (length (tkeys t cs dicts)) [t, t @ ''1'']"
  using assms
proof (induction cs arbitrary: dicts)
  case Nil
  show ?case by (simp add: tkeys_Nil)
next
  case (Cons c cs)
  let ?u = "lower (tag c)"
  let ?k = "unique_key dicts ?u 1"
  let ?kv = "(?k, item_value c)"
  have rest: "\<forall>c\<in>set cs. lower (tag c) \<noteq> t \<longrightarrow>
             \<not> prefix (lower (tag c)) t \<and> \<not> prefix t (lower (tag c))"
    using Cons.prems(1) by simp
  show ?case
  proof (cases "?u = t")
    case True
    have "t \<notin> set (map fst dicts)"
      using Cons.prems(2) by auto
    then have k: "?k = t"
      using True unique_key_absent [of t dicts 1] by simp
    have "take 1 (tkeys t cs (dicts @ [?kv])) = take (length (tkeys t cs (dicts @ [?kv]))) [t @ ''1'']"
    proof (rule tkeys_second [OF rest])
      show "t \<in> set (map fst (dicts @ [?kv]))"
        using k by simp
      show "\<forall>k\<in>set (map fst (dicts @ [?kv])). prefix t k \<longrightarrow> k = t"
        using k Cons.prems(2) by auto
    qed
    then have "take 2 (t # tkeys t cs (dicts @ [?kv]))
        = take (length (t # tkeys t cs (dicts @ [?kv]))) [t, t @ ''1'']"
      by (simp add: numeral_2_eq_2)
    then show ?thesis
      using True k by (simp add: tkeys_Cons)
  next
    case False
    have inc: "\<not> prefix ?u t" "\<not> prefix t ?u"
      using Cons.prems(1) False by simp_all
    have "\<not> prefix t ?k"
      using inc unique_key_prefix [of ?u dicts 1] by (rule incomparable_key)
    then have keep: "\<forall>k\<in>set (map fst (dicts @ [?kv])). \<not> prefix t k"
      using Cons.prems(2) by auto
    have "take 2 (tkeys t cs (dicts @ [?kv])) = take (length (tkeys t cs (dicts @ [?kv]))) [t, t @ ''1'']"
      using rest keep by (rule Cons.IH)
    then show ?thesis
      using False by (simp add: tkeys_Cons)
  qed
qed

lemma tkeys_prefix: "\<forall>k\<in>set (tkeys t cs dicts). prefix t k"
proof (induction cs arbitrary: dicts)
  case Nil
  show ?case by (simp add: tkeys_Nil)
next
  case (Cons c cs)
  show ?case
    using Cons.IH unique_key_prefix [of "lower (tag c)" dicts 1]
    by (auto simp: tkeys_Cons Let_def)
qed

lemma tkeys_length: "length (tkeys t cs dicts) = length (filter (\<lambda>c. lower (tag c) = t) cs)"
  by (induction cs arbitrary: dicts) (simp_all add: tkeys_Nil tkeys_Cons Let_def)

lemma tkeys_distinct: "distinct (tkeys t cs [])"
proof -
  have "distinct (map fst ([] @ new_entries cs []))"
    by (rule distinct_new_entries) simp
  then have "distinct (map fst (new_entries cs []))" by simp
  moreover have "map (fst \<circ> fst) (zip (new_entries cs []) cs) = map fst (new_entries cs [])"
    using length_new_entries [of cs "[]"] by (metis map_fst_zip map_map)
  ultimately have "distinct (map (fst \<circ> fst) (zip (new_entries cs []) cs))" by simp
  then show ?thesis
    unfolding tkeys_def by (rule distinct_map_filter)
qed

lemma sibling_keys_tkeys: "sibling_keys t xml = tkeys t (children xml) []"
  by (simp add: sibling_keys_def tkeys_def xml_to_dict_new_entries)

text \<open>
  C1, as the claim states it, fails. With two siblings \<open>a\<close> and a sibling \<open>a1\<close> between
  them, the second \<open>a\<close> cannot be stored under \<open>a1\<close>, which is taken: the loop goes on
  until the key is new. And since the loop appends each suffix to the key of the round
  before, three siblings \<open>a\<close> are stored under \<open>a\<close>, \<open>a1\<close> and \<open>a12\<close>, not \<open>a2\<close>.
\<close>

theorem sibling_keys_counterexample:
  "sibling_keys ''a''
     (Element ''r'' None [Element ''a'' None [], Element ''a1'' None [], Element ''a'' None []])
     = [''a'', ''a12'']
   \<and> sibling_keys ''a''
     (Element ''r'' None [Element ''a'' None [], Element ''a'' None [], Element ''a'' None []])
     = [''a'', ''a1'', ''a12'']"
  by (simp add: sibling_keys_def unique_key.simps str_nat.simps digit_char_def
      lower_def lower_char_def)

text \<open>
  C1, amended. Take an element and a tag \<open>t\<close> such that no child with another
  (lower-cased) tag has a tag that begins with \<open>t\<close> or that \<open>t\<close> begins with. Then the
  \<open>K\<close> children with tag \<open>t\<close> are stored under \<open>K\<close> pairwise distinct keys, the first
  under \<open>t\<close> itself and the second under \<open>t\<close> followed by \<open>1\<close>, and every one of the
  \<open>K\<close> keys begins with \<open>t\<close>. (The names of the third and later keys are not stated.)
\<close>

theorem sibling_keys_first_two:
  assumes "\<forall>c\<in>set (children xml). lower (tag c) \<noteq> t \<longrightarrow>
             \<not> prefix (lower (tag c)) t \<and> \<not> prefix t (lower (tag c))"
  shows "length (sibling_keys t xml) = length (filter (\<lambda>c. lower (tag c) = t) (children xml))
       \<and> distinct (sibling_keys t xml)
       \<and> take 2 (sibling_keys t xml) = take (length (sibling_keys t xml)) [t, t @ ''1'']
       \<and> (\<forall>k\<in>set (sibling_keys t xml). prefix t k)"
proof -
  have "take 2 (tkeys t (children xml) []) = take (length (tkeys t (children xml) [])) [t, t @ ''1'']"
    using assms by (rule tkeys_first) simp
  then show ?thesis
    by (simp add: sibling_keys_tkeys tkeys_length tkeys_distinct tkeys_prefix)
qed

theorem sibling_keys_first_two_witness:
  "length (sibling_keys ''nic'' (Element ''VM'' None
        [Element ''NIC'' None [], Element ''DISK'' None [], Element ''NIC'' None [],
         Element ''Nic'' (Some ''x'') []])) = 3
   \<and> distinct (sibling_keys ''nic'' (Element ''VM'' None
        [Element ''NIC'' None [], Element ''DISK'' None [], Element ''NIC'' None [],
         Element ''Nic'' (Some ''x'') []]))
   \<and> take 2 (sibling_keys ''nic'' (Element ''VM'' None
        [Element ''NIC'' None [], Element ''DISK'' None [], Element ''NIC'' None [],
         Element ''Nic'' (Some ''x'') []])) = [''nic'', ''nic1'']"
proof -
  let ?xml = "Element ''VM'' None
        [Element ''NIC'' None [], Element ''DISK'' None [], Element ''NIC'' None [],
         Element ''Nic'' (Some ''x'') []]"
  have h: "\<forall>c\<in>set (children ?xml). lower (tag c) \<noteq> ''nic'' \<longrightarrow>
        \<not> prefix (lower (tag c)) ''nic'' \<and> \<not> prefix ''nic'' (lower (tag c))"
    by (simp add: lower_def lower_char_def)
  have "length (filter (\<lambda>c. lower (tag c) = ''nic'') (children ?xml)) = 3"
    by (simp add: lower_def lower_char_def)
  then show ?thesis
    using sibling_keys_first_two [OF h] by simp
qed

section \<open>The concrete provider, evaluated\<close>

lemmas flatten_defs = unique_key.simps lower_def lower_char_def str_nat.simps digit_char_def

lemma example_fields:
  "respond example_env = example_respond"
  "etree_XML example_env = example_XML"
  "provider_config example_env ''xml_rpc'' = PStr ''http://localhost:2633/RPC2''"
  "provider_config example_env ''user'' = PStr ''oneadmin''"
  "provider_config example_env ''password'' = PStr ''secret''"
  "xmlrpc_ServerProxy example_env url = Inr (ServerProxy url)"
  "get_cloud_config_value example_env k vm dflt = (case vm k of None \<Rightarrow> dflt | Some v \<Rightarrow> v)"
  "is_profile_configured example_env profile = Inr (PBool True)"
  "opts example_env = [''transport'' \<mapsto> PStr ''zeromq'']"
  "active_provider_name example_env = ''my-opennebula-config:opennebula''"
  "int_of_str example_env ''5'' = Some 5"
  "int_of_str example_env ''7'' = Some 7"
  "int_of_str example_env ''8'' = Some 8"
  "repr example_env (PStr s) = ''<'' @ s @ ''>''"
  "isfile example_env path = False"
  "fopen_read example_env path = Inr (PStr ''NAME = x'')"
  "wait_for_ip example_env = example_wait_for_ip"
  "bootstrap example_env vm = Inr (PDict [])"
  by (simp_all add: example_env_def)

lemma get_xml_rpc_example:
  "get_xml_rpc example_env
     = Inr (ServerProxy (PStr ''http://localhost:2633/RPC2''), PStr ''oneadmin'', PStr ''secret'')"
  by (simp add: get_xml_rpc_def example_fields sum_then_def)

lemma join_colon_example: "join_colon (PStr ''oneadmin'') (PStr ''secret'') = Inr ''oneadmin:secret''"
  by (simp add: join_colon_def)

lemma avail_images_example:
  "avail_images example_env None w
     = (Inr [(PStr ''ubuntu'', PDict [(''id'', PStr ''5''), (''name'', PStr ''ubuntu'')])],
        w\<lparr>rpc_log := rpc_log w
            @ [(Rpc ''one.imagepool.info'' [PStr ''oneadmin:secret'', PInt (- 1), PInt (- 1), PInt (- 1)],
                Reply (PList [PBool True, PStr ''images'']))]\<rparr>)"
  by (simp add: avail_images_def lister_defs run_defs example_defs flatten_defs)

lemma avail_locations_example:
  "avail_locations example_env None w
     = (Inr [(PStr ''host1'', PDict [(''id'', PStr ''2''), (''name'', PStr ''host1'')])],
        w\<lparr>rpc_log := rpc_log w
            @ [(Rpc ''one.hostpool.info'' [PStr ''oneadmin:secret''],
                Reply (PList [PBool True, PStr ''hosts'']))]\<rparr>)"
  by (simp add: avail_locations_def lister_defs run_defs example_defs flatten_defs)

lemma list_nodes_full_example:
  "list_nodes_full example_env None w
     = (Inr [(PStr ''web1'', example_web1), (PStr ''bad1'', example_bad1)],
        w\<lparr>rpc_log := rpc_log w
            @ [(Rpc ''one.vmpool.info''
                  [PStr ''oneadmin:secret'', PInt (- 1), PInt (- 1), PInt (- 1), PInt (- 1)],
                Reply (PList [PBool True, PStr ''vms'']))]\<rparr>)"
  by (simp add: lister_defs run_defs example_defs flatten_defs example_web1_def example_bad1_def)

lemma show_instance_example:
  "show_instance example_env (PStr ''web1'') (Some ''action'') w
     = (Inr example_web1,
        w\<lparr>rpc_log := rpc_log w
            @ [(Rpc ''one.vmpool.info''
                  [PStr ''oneadmin:secret'', PInt (- 1), PInt (- 1), PInt (- 1), PInt (- 1)],
                Reply (PList [PBool True, PStr ''vms'']))],
          node_cache := node_cache w @ [example_web1]\<rparr>)"
  "show_instance example_env (PStr ''bad1'') (Some ''action'') w
     = (Inr example_bad1,
        w\<lparr>rpc_log := rpc_log w
            @ [(Rpc ''one.vmpool.info''
                  [PStr ''oneadmin:secret'', PInt (- 1), PInt (- 1), PInt (- 1), PInt (- 1)],
                Reply (PList [PBool True, PStr ''vms'']))],
          node_cache := node_cache w @ [example_bad1]\<rparr>)"
  by (simp_all add: show_instance_def get_node_def get_node_loop.simps [of _ _ 10]
      list_nodes_full_example pool_getitem_def cache_node_def run_defs)

lemma query_node_data_example:
  "query_node_data example_env (PStr ''web1'') w
     = (Inr example_web1, snd (show_instance example_env (PStr ''web1'') (Some ''action'') w))"
  "query_node_data example_env (PStr ''bad1'') w
     = (Inr (PBool False), snd (show_instance example_env (PStr ''bad1'') (Some ''action'') w))"
  by (simp_all add: query_node_data_def show_instance_example run_defs getitem_def
      example_web1_def example_bad1_def)

lemma wait_for_ip_example:
  "wait_for_ip example_env (query_node_data example_env (PStr ''web1'')) t i w
     = (Inr example_web1, snd (show_instance example_env (PStr ''web1'') (Some ''action'') w))"
  "wait_for_ip example_env (query_node_data example_env (PStr ''bad1'')) t i w
     = (Inl (SaltCloudExecutionFailure ''Too many failures occurred''),
        snd (show_instance example_env (PStr ''bad1'') (Some ''action'') w))"
  by (simp_all add: example_fields example_wait_for_ip_def query_node_data_example
      example_web1_def)

lemma destroy_example:
  "destroy example_env (PStr ''bad1'') None w
     = (Inr (PDict [(''action'', PStr ''vm.delete''), (''deleted'', PBool True),
                    (''node_id'', PInt 8), (''error_code'', PInt 0)]),
        w\<lparr>rpc_log := rpc_log w
            @ [(Rpc ''one.vmpool.info''
                  [PStr ''oneadmin:secret'', PInt (- 1), PInt (- 1), PInt (- 1), PInt (- 1)],
                Reply (PList [PBool True, PStr ''vms''])),
               (Rpc ''one.vm.action'' [PStr ''oneadmin:secret'', PStr ''delete'', PInt 8],
                Reply (PList [PBool True, PInt 8, PInt 0]))],
          events := events w
            @ [(''destroying instance'', ''salt/cloud/bad1/destroying''),
               (''destroyed instance'', ''salt/cloud/bad1/destroyed'')],
          node_cache := node_cache w @ [example_bad1]\<rparr>)"
  by (simp add: destroy_def fire_event_def py_str_def get_xml_rpc_example join_colon_example
      show_instance_example getitem_def py_int_def example_fields rpc_call_def
      example_respond_def action_result_def getindex_def run_defs sum_then_def Let_def
      example_bad1_def)

lemma create_request_example:
  "create_request example_env (example_vm n) w
     = (Inr ((example_vm n)(''provider'' := None, ''driver'' \<mapsto> PStr ''opennebula''),
             \<lparr>k_name = PStr n, k_image_id = PStr ''5'', k_region_id = PStr ''2'',
              k_private_networking = PStr ''false''\<rparr>),
        w\<lparr>rpc_log := rpc_log w
            @ [(Rpc ''one.imagepool.info''
                  [PStr ''oneadmin:secret'', PInt (- 1), PInt (- 1), PInt (- 1)],
                Reply (PList [PBool True, PStr ''images''])),
               (Rpc ''one.hostpool.info'' [PStr ''oneadmin:secret''],
                Reply (PList [PBool True, PStr ''hosts'']))],
          events := events w
            @ [(''starting create'', ''salt/cloud/'' @ n @ ''/creating''),
               (''requesting instance'', ''salt/cloud/'' @ n @ ''/requesting'')]\<rparr>)"
  by (simp add: create_request_def get_image_def get_location_def avail_images_example
      avail_locations_example vm_getitem_def fire_event_def py_str_def getitem_def
      example_fields example_vm_def run_defs sum_then_def Let_def)

lemma create_instantiate_example:
  \<open>create_instantiate example_env
       \<lparr>k_name = PStr n, k_image_id = PStr ''5'', k_region_id = PStr ''2'',
        k_private_networking = PStr ''false''\<rparr> w
     = (Inr True,
        w\<lparr>rpc_log := rpc_log w
            @ [(Rpc ''one.template.instantiate''
                  [PStr ''oneadmin:secret'', PInt 5, PStr n, PBool False,
                   PStr ''SCHED_REQUIREMENTS="ID=2"''],
                Reply (PList [PBool True, PInt 9, PInt 0]))]\<rparr>)\<close>
  by (simp add: create_instantiate_def sched_requirements_def py_str_def py_int_def
      get_xml_rpc_example join_colon_example example_fields rpc_call_def example_respond_def
      run_defs Let_def)

section \<open>The listers on an empty pool\<close>

lemma pool_info_empty:
  assumes "pool_info env srv m as w = (r, w')"
    and "rpc_log w' = rpc_log w @ [(c, Reply answer)]"
    and "getindex answer 1 = Inr pool_text"
    and "etree_XML env pool_text = Inr tree"
  shows "r = Inr tree"
  using assms
  by (auto simp: pool_info_def run_defs rpc_call_def Let_def split: response.splits sum.splits)

lemma pool_lister_empty:
  assumes "andthen (outcome creds) (\<lambda>(srv, user, password).
             andthen (outcome (join_colon user password)) (\<lambda>auth.
             andthen (pool_info env srv m (as auth)) (\<lambda>p.
             outcome (f (children p))))) w = (r, w')"
    and "rpc_log w' = rpc_log w @ [(c, Reply answer)]"
    and "getindex answer 1 = Inr pool_text"
    and "etree_XML env pool_text = Inr tree"
    and "children tree = []"
    and "f [] = Inr []"
  shows "r = Inr []"
  using assms
  by (auto simp: run_defs split: if_splits sum.splits prod.splits dest!: pool_info_empty)

text \<open>
  C7. Take any resource lister, run in any call context and with any arguments. If the
  run sent its pool request and the provider answered with a pool that holds no element
  (the second element of the answer parses to a tree without children), the lister
  returns the empty mapping, and so raises no error.
\<close>

theorem listers_empty_pool:
  assumes run: "run_lister env l w = (r, w')"
    and log: "rpc_log w' = rpc_log w @ [(c, Reply answer)]"
    and answer: "getindex answer 1 = Inr pool_text"
    and parse: "etree_XML env pool_text = Inr tree"
    and empty: "children tree = []"
  shows "r = Inr []"
proof (cases l)
  case (Avail_images call)
  show ?thesis
  proof (cases "call = Some ''action''")
    case True
    with run log Avail_images show ?thesis by (simp add: avail_images_def raise_def)
  next
    case False
    with run Avail_images show ?thesis
      by (simp add: avail_images_def) (erule pool_lister_empty [OF _ log answer parse empty], simp)
  qed
next
  case (Avail_locations call)
  show ?thesis
  proof (cases "call = Some ''action''")
    case True
    with run log Avail_locations show ?thesis by (simp add: avail_locations_def raise_def)
  next
    case False
    with run Avail_locations show ?thesis
      by (simp add: avail_locations_def) (erule pool_lister_empty [OF _ log answer parse empty], simp)
  qed
next
  case (List_nodes call)
  show ?thesis
  proof (cases "call = Some ''action''")
    case True
    with run log List_nodes show ?thesis by (simp add: list_nodes_def raise_def)
  next
    case False
    with run List_nodes show ?thesis
      by (simp add: list_nodes_def private_list_nodes_def) (erule pool_lister_empty [OF _ log answer parse empty], simp)
  qed
next
  case (List_nodes_full call)
  show ?thesis
  proof (cases "call = Some ''action''")
    case True
    with run log List_nodes_full show ?thesis by (simp add: list_nodes_full_def raise_def)
  next
    case False
    with run List_nodes_full show ?thesis
      by (simp add: list_nodes_full_def private_list_nodes_def) (erule pool_lister_empty [OF _ log answer parse empty], simp)
  qed
next
  case (Private_list_nodes full)
  with run show ?thesis
    by (simp add: private_list_nodes_def) (erule pool_lister_empty [OF _ log answer parse empty], simp)
next
  case (List_images server user password)
  with run show ?thesis
    by (simp add: list_images_def) (erule pool_lister_empty [OF _ log answer parse empty], simp)
next
  case (List_security_groups server user password)
  with run show ?thesis
    by (simp add: list_security_groups_def) (erule pool_lister_empty [OF _ log answer parse empty], simp)
next
  case (List_templates server user password)
  with run show ?thesis
    by (simp add: list_templates_def) (erule pool_lister_empty [OF _ log answer parse empty], simp)
next
  case (List_vms server user password)
  with run show ?thesis
    by (simp add: list_vms_def) (erule pool_lister_empty [OF _ log answer parse empty], simp)
next
  case (List_vns server user password)
  with run show ?thesis
    by (simp add: list_vns_def) (erule pool_lister_empty [OF _ log answer parse empty], simp)
qed

theorem listers_empty_pool_witness:
  "fst (run_lister example_env (List_templates None PNone PNone) empty_world) = Inr []
   \<and> rpc_log (snd (run_lister example_env (List_templates None PNone PNone) empty_world))
       = [(Rpc ''one.templatepool.info'' [PStr ''oneadmin:secret'', PInt (- 1), PInt (- 1), PInt (- 1)],
           Reply (PList [PBool True, PStr ''none'']))]"
proof -
  let ?run = "run_lister example_env (List_templates None PNone PNone) empty_world"
  have run: "?run = (fst ?run, snd ?run)"
    by simp
  have log: "rpc_log (snd ?run) = rpc_log empty_world
      @ [(Rpc ''one.templatepool.info'' [PStr ''oneadmin:secret'', PInt (- 1), PInt (- 1), PInt (- 1)],
          Reply (PList [PBool True, PStr ''none'']))]"
    by (simp add: lister_defs run_defs example_defs)
  have answer: "getindex (PList [PBool True, PStr ''none'']) 1 = Inr (PStr ''none'')"
    by (simp add: getindex_def)
  have parse: "etree_XML example_env (PStr ''none'') = Inr (Element ''POOL'' None [])"
    by (simp add: example_defs)
  have empty: "children (Element ''POOL'' None []) = []"
    by simp
  show ?thesis
    using listers_empty_pool [OF run log answer parse empty] log
    by (simp add: empty_world_def)
qed

section \<open>Lookup by name: the bounded retry\<close>

lemma pool_info_effect:
  "pool_info env srv m as w = (r, w') \<Longrightarrow>
   \<exists>x. w' = w\<lparr>rpc_log := rpc_log w @ [(Rpc m as, x)]\<rparr>"
  by (auto simp: pool_info_def run_defs rpc_call_def Let_def split: response.splits sum.splits)

lemma private_list_nodes_effect:
  assumes "private_list_nodes env full w = (Inr nodes, w')"
  shows "\<exists>as x. w' = w\<lparr>rpc_log := rpc_log w @ [(Rpc ''one.vmpool.info'' as, x)]\<rparr>"
  using assms
  by (auto simp: private_list_nodes_def run_defs split: sum.splits prod.splits dest!: pool_info_effect)

lemma list_templates_effect:
  assumes "list_templates env server user password w = (Inr templates, w')"
  shows "\<exists>as x. w' = w\<lparr>rpc_log := rpc_log w @ [(Rpc ''one.templatepool.info'' as, x)]\<rparr>"
  using assms
  by (auto simp: list_templates_def run_defs split: sum.splits prod.splits dest!: pool_info_effect)

lemma get_node_loop_absent:
  assumes absent: "\<forall>w. \<exists>nodes w'. list_nodes_full env None w = (Inr nodes, w')
                     \<and> pool_getitem nodes name = Inl KeyError"
  shows "fst (get_node_loop env name (int n) w) = Inr (PDict [])
       \<and> (\<exists>new. rpc_log (snd (get_node_loop env name (int n) w)) = rpc_log w @ new
              \<and> map (rpc_method \<circ> fst) new = replicate (Suc n) ''one.vmpool.info'')
       \<and> sleeps (snd (get_node_loop env name (int n) w)) = sleeps w @ replicate (Suc n) (1 / 2)"
proof (induction n arbitrary: w)
  case 0
  from absent obtain nodes w1 where
    l: "list_nodes_full env None w = (Inr nodes, w1)" and k: "pool_getitem nodes name = Inl KeyError"
    by blast
  from l obtain as x where w1: "w1 = w\<lparr>rpc_log := rpc_log w @ [(Rpc ''one.vmpool.info'' as, x)]\<rparr>"
    using private_list_nodes_effect by (fastforce simp: list_nodes_full_def)
  have step: "get_node_loop env name 0 w = get_node_loop env name (- 1) (w1\<lparr>sleeps := sleeps w1 @ [1 / 2]\<rparr>)"
    using l k by (subst get_node_loop.simps) (simp add: run_defs time_sleep_def)
  have stop: "get_node_loop env name (- 1) v = (Inr (PDict []), v)" for v
    by (subst get_node_loop.simps) (simp add: run_defs)
  show ?case
    by (simp add: step stop w1)
next
  case (Suc n)
  from absent obtain nodes w1 where
    l: "list_nodes_full env None w = (Inr nodes, w1)" and k: "pool_getitem nodes name = Inl KeyError"
    by blast
  from l obtain as x where w1: "w1 = w\<lparr>rpc_log := rpc_log w @ [(Rpc ''one.vmpool.info'' as, x)]\<rparr>"
    using private_list_nodes_effect by (fastforce simp: list_nodes_full_def)
  let ?w2 = "w1\<lparr>sleeps := sleeps w1 @ [1 / 2]\<rparr>"
  have step: "get_node_loop env name (int (Suc n)) w = get_node_loop env name (int n) ?w2"
    using l k by (subst get_node_loop.simps) (simp add: run_defs time_sleep_def)
  from Suc.IH [of ?w2] obtain new where
    r: "fst (get_node_loop env name (int n) ?w2) = Inr (PDict [])"
    and new: "rpc_log (snd (get_node_loop env name (int n) ?w2)) = rpc_log ?w2 @ new"
      "map (rpc_method \<circ> fst) new = replicate (Suc n) ''one.vmpool.info''"
    and s: "sleeps (snd (get_node_loop env name (int n) ?w2)) = sleeps ?w2 @ replicate (Suc n) (1 / 2)"
    by blast
  have "rpc_log (snd (get_node_loop env name (int n) ?w2))
      = rpc_log w @ ((Rpc ''one.vmpool.info'' as, x) # new)"
    using new(1) by (simp add: w1)
  moreover have "map (rpc_method \<circ> fst) ((Rpc ''one.vmpool.info'' as, x) # new)
      = replicate (Suc (Suc n)) ''one.vmpool.info''"
    using new(2) by simp
  ultimately have "\<exists>new'. rpc_log (snd (get_node_loop env name (int n) ?w2)) = rpc_log w @ new'
      \<and> map (rpc_method \<circ> fst) new' = replicate (Suc (Suc n)) ''one.vmpool.info''"
    by blast
  moreover have "sleeps (snd (get_node_loop env name (int n) ?w2))
      = sleeps w @ replicate (Suc (Suc n)) (1 / 2)"
    using s by (simp add: w1 replicate_append_same)
  ultimately show ?case
    using r by (simp only: step)
qed

lemma get_template_loop_absent:
  assumes absent: "\<forall>w. \<exists>templates w'. list_templates env server user password w = (Inr templates, w')
                     \<and> pool_getitem templates name = Inl KeyError"
  shows "fst (get_template_loop env name server user password (int n) w) = Inr (PDict [])
       \<and> (\<exists>new. rpc_log (snd (get_template_loop env name server user password (int n) w)) = rpc_log w @ new
              \<and> map (rpc_method \<circ> fst) new = replicate (Suc n) ''one.templatepool.info'')
       \<and> sleeps (snd (get_template_loop env name server user password (int n) w))
           = sleeps w @ replicate (Suc n) (1 / 2)"
proof (induction n arbitrary: w)
  case 0
  from absent obtain templates w1 where
    l: "list_templates env server user password w = (Inr templates, w1)"
    and k: "pool_getitem templates name = Inl KeyError"
    by blast
  from l obtain as x where w1: "w1 = w\<lparr>rpc_log := rpc_log w @ [(Rpc ''one.templatepool.info'' as, x)]\<rparr>"
    using list_templates_effect by blast
  have step: "get_template_loop env name server user password 0 w
      = get_template_loop env name server user password (- 1) (w1\<lparr>sleeps := sleeps w1 @ [1 / 2]\<rparr>)"
    using l k by (subst get_template_loop.simps) (simp add: run_defs time_sleep_def)
  have stop: "get_template_loop env name server user password (- 1) v = (Inr (PDict []), v)" for v
    by (subst get_template_loop.simps) (simp add: run_defs)
  show ?case
    by (simp add: step stop w1)
next
  case (Suc n)
  from absent obtain templates w1 where
    l: "list_templates env server user password w = (Inr templates, w1)"
    and k: "pool_getitem templates name = Inl KeyError"
    by blast
  from l obtain as x where w1: "w1 = w\<lparr>rpc_log := rpc_log w @ [(Rpc ''one.templatepool.info'' as, x)]\<rparr>"
    using list_templates_effect by blast
  let ?w2 = "w1\<lparr>sleeps := sleeps w1 @ [1 / 2]\<rparr>"
  let ?R = "get_template_loop env name server user password (int n) ?w2"
  have step: "get_template_loop env name server user password (int (Suc n)) w = ?R"
    using l k by (subst get_template_loop.simps) (simp add: run_defs time_sleep_def)
  from Suc.IH [of ?w2] obtain new where
    r: "fst ?R = Inr (PDict [])"
    and new: "rpc_log (snd ?R) = rpc_log ?w2 @ new"
      "map (rpc_method \<circ> fst) new = replicate (Suc n) ''one.templatepool.info''"
    and s: "sleeps (snd ?R) = sleeps ?w2 @ replicate (Suc n) (1 / 2)"
    by blast
  have "rpc_log (snd ?R) = rpc_log w @ ((Rpc ''one.templatepool.info'' as, x) # new)"
    using new(1) by (simp add: w1)
  moreover have "map (rpc_method \<circ> fst) ((Rpc ''one.templatepool.info'' as, x) # new)
      = replicate (Suc (Suc n)) ''one.templatepool.info''"
    using new(2) by simp
  ultimately have "\<exists>new'. rpc_log (snd ?R) = rpc_log w @ new'
      \<and> map (rpc_method \<circ> fst) new' = replicate (Suc (Suc n)) ''one.templatepool.info''"
    by blast
  moreover have "sleeps (snd ?R) = sleeps w @ replicate (Suc (Suc n)) (1 / 2)"
    using s by (simp add: w1 replicate_append_same)
  ultimately show ?case
    using r by (simp only: step)
qed

text \<open>
  C2. What the code does for a name that is absent from the pool at every attempt:
  \<open>_get_node\<close> and \<open>_get_template\<close> return the empty record, after eleven requests to
  the lister and eleven pauses of half a time unit, the last pause after the last
  attempt. The claim says ten attempts; the loop \<open>while attempts >= 0\<close>, started at
  ten, runs once more.
\<close>

theorem lookup_makes_eleven_attempts:
  assumes "\<forall>w. \<exists>nodes w'. list_nodes_full env None w = (Inr nodes, w')
             \<and> pool_getitem nodes name = Inl KeyError"
    and "\<forall>w. \<exists>templates w'. list_templates env server user password w = (Inr templates, w')
             \<and> pool_getitem templates name = Inl KeyError"
  shows "fst (get_node env name w) = Inr (PDict [])
       \<and> map (rpc_method \<circ> fst) (drop (length (rpc_log w)) (rpc_log (snd (get_node env name w))))
           = replicate 11 ''one.vmpool.info''
       \<and> sleeps (snd (get_node env name w)) = sleeps w @ replicate 11 (1 / 2)
       \<and> fst (get_template env name server user password w) = Inr (PDict [])
       \<and> map (rpc_method \<circ> fst)
             (drop (length (rpc_log w)) (rpc_log (snd (get_template env name server user password w))))
           = replicate 11 ''one.templatepool.info''
       \<and> sleeps (snd (get_template env name server user password w))
           = sleeps w @ replicate 11 (1 / 2)"
proof -
  have ten: "(10::int) = int 10" by simp
  have eleven: "(11::nat) = Suc 10" by simp
  from get_node_loop_absent [OF assms(1), of 10 w] obtain new where
    "fst (get_node env name w) = Inr (PDict [])"
    "rpc_log (snd (get_node env name w)) = rpc_log w @ new"
    "map (rpc_method \<circ> fst) new = replicate 11 ''one.vmpool.info''"
    "sleeps (snd (get_node env name w)) = sleeps w @ replicate 11 (1 / 2)"
    unfolding get_node_def ten eleven by blast
  moreover from get_template_loop_absent [OF assms(2), of 10 w] obtain new' where
    "fst (get_template env name server user password w) = Inr (PDict [])"
    "rpc_log (snd (get_template env name server user password w)) = rpc_log w @ new'"
    "map (rpc_method \<circ> fst) new' = replicate 11 ''one.templatepool.info''"
    "sleeps (snd (get_template env name server user password w)) = sleeps w @ replicate 11 (1 / 2)"
    unfolding get_template_def ten eleven by blast
  ultimately show ?thesis by simp
qed

theorem lookup_makes_eleven_attempts_witness:
  "fst (get_node example_env (PStr ''ghost'') empty_world) = Inr (PDict [])
   \<and> map (rpc_method \<circ> fst) (rpc_log (snd (get_node example_env (PStr ''ghost'') empty_world)))
       = replicate 11 ''one.vmpool.info''
   \<and> sleeps (snd (get_node example_env (PStr ''ghost'') empty_world)) = replicate 11 (1 / 2)
   \<and> fst (get_template example_env (PStr ''ghost'') None PNone PNone empty_world) = Inr (PDict [])"
proof -
  have nodes: "\<forall>w. \<exists>nodes w'. list_nodes_full example_env None w = (Inr nodes, w')
             \<and> pool_getitem nodes (PStr ''ghost'') = Inl KeyError"
    by (simp add: lister_defs run_defs example_defs)
  have templates: "\<forall>w. \<exists>templates w'.
             list_templates example_env None PNone PNone w = (Inr templates, w')
             \<and> pool_getitem templates (PStr ''ghost'') = Inl KeyError"
    by (simp add: lister_defs run_defs example_defs)
  have "rpc_log empty_world = []" and "sleeps empty_world = []"
    by (simp_all add: empty_world_def)
  then show ?thesis
    using lookup_makes_eleven_attempts [OF nodes templates, of empty_world] by simp
qed

section \<open>The update mode\<close>













section \<open>The identifier of a named resource\<close>

lemma list_security_groups_effect:
  assumes "list_security_groups env server user password w = (Inr groups, w')"
  shows "\<exists>as x. w' = w\<lparr>rpc_log := rpc_log w @ [(Rpc ''one.secgrouppool.info'' as, x)]\<rparr>"
  using assms
  by (auto simp: list_security_groups_def run_defs split: sum.splits prod.splits
      dest!: pool_info_effect)

text \<open>
  C10, amended. Take an invocation without a name (\<open>kwargs\<close> is \<open>None\<close> or has no
  \<open>name\<close>) in a call context other than \<open>action\<close>, and let the security-group lister
  return a pool in which no group has the name \<open>None\<close>. Then \<open>get_image_id\<close>,
  \<open>get_template_id\<close>, \<open>get_vm_id\<close> and \<open>get_vn_id\<close> raise their usage error
  "requires a name" and leave the world as it was, while \<open>get_secgroup_id\<close> sends the
  pool request of the lister and fails with a \<open>KeyError\<close>.
\<close>

theorem get_secgroup_id_without_name:
  assumes no_name: "kwargs_get kwargs ''name'' = PNone"
    and ctx: "call \<noteq> Some ''action''"
    and lister: "list_security_groups env None PNone PNone w = (Inr groups, w')"
    and named: "map_of groups PNone = None"
  shows "get_image_id env kwargs call w
           = (Inl (SaltCloudSystemExit ''The get_image_id function requires a name.''), w)
       \<and> get_template_id env kwargs call w
           = (Inl (SaltCloudSystemExit ''The get_template_id function requires a name.''), w)
       \<and> get_vm_id env kwargs call w
           = (Inl (SaltCloudSystemExit ''The get_vm_id function requires a name.''), w)
       \<and> get_vn_id env kwargs call w
           = (Inl (SaltCloudSystemExit ''The get_vn_id function requires a name.''), w)
       \<and> get_secgroup_id env kwargs call w = (Inl KeyError, w')
       \<and> (\<exists>as x. rpc_log w' = rpc_log w @ [(Rpc ''one.secgrouppool.info'' as, x)])"
proof -
  from list_security_groups_effect [OF lister] obtain as x where
    "w' = w\<lparr>rpc_log := rpc_log w @ [(Rpc ''one.secgrouppool.info'' as, x)]\<rparr>"
    by blast
  then have "\<exists>as x. rpc_log w' = rpc_log w @ [(Rpc ''one.secgrouppool.info'' as, x)]"
    by simp
  moreover have "get_secgroup_id env kwargs call w = (Inl KeyError, w')"
    using no_name ctx lister named
    by (simp add: get_secgroup_id_def run_defs pool_getitem_def sum_then_def)
  ultimately show ?thesis
    using no_name ctx
    by (simp add: get_image_id_def get_template_id_def get_vm_id_def get_vn_id_def raise_def)
qed

text \<open>
  C10, as the claim states it, fails in the call context \<open>action\<close>: the guard on the
  context comes first, so \<open>get_secgroup_id\<close> raises the usage error of the context and
  never calls the lister.
\<close>

theorem get_secgroup_id_counterexample:
  "get_secgroup_id example_env None (Some ''action'') empty_world
     = (Inl (SaltCloudSystemExit
          ''The get_secgroup_id function must be called with -f or --function.''),
        empty_world)
   \<and> rpc_log empty_world = []"
  by (simp add: get_secgroup_id_def raise_def empty_world_def)

theorem get_secgroup_id_without_name_witness:
  "get_image_id example_env None None empty_world
     = (Inl (SaltCloudSystemExit ''The get_image_id function requires a name.''), empty_world)
   \<and> fst (get_secgroup_id example_env None None empty_world) = Inl KeyError
   \<and> rpc_log (snd (get_secgroup_id example_env None None empty_world))
       = [(Rpc ''one.secgrouppool.info''
             [PStr ''oneadmin:secret'', PInt (- 1), PInt (- 1), PInt (- 1)],
           Reply (PList [PBool True, PStr ''none'']))]"
proof -
  let ?w' = "empty_world\<lparr>rpc_log := [(Rpc ''one.secgrouppool.info''
             [PStr ''oneadmin:secret'', PInt (- 1), PInt (- 1), PInt (- 1)],
           Reply (PList [PBool True, PStr ''none'']))]\<rparr>"
  have no_name: "kwargs_get None ''name'' = PNone"
    by (simp add: kwargs_get_def)
  have ctx: "(None :: string option) \<noteq> Some ''action''"
    by simp
  have lister: "list_security_groups example_env None PNone PNone empty_world = (Inr [], ?w')"
    by (simp add: list_security_groups_def lister_defs run_defs example_defs)
  have named: "map_of ([] :: pool) PNone = None"
    by simp
  show ?thesis
    using get_secgroup_id_without_name [OF no_name ctx lister named] by simp
qed

section \<open>Destroying a VM\<close>

lemma pool_info_log:
  "pool_info env srv m as w = (r, w') \<Longrightarrow> \<exists>x. rpc_log w' = rpc_log w @ [(Rpc m as, x)]"
  by (auto dest: pool_info_effect)

lemma list_nodes_full_log:
  assumes "list_nodes_full env None w = (r, w')"
  shows "\<exists>new. rpc_log w' = rpc_log w @ new
           \<and> filter (\<lambda>(request, answer). rpc_method request = ''one.vm.action'') new = []"
  using assms
  by (auto simp: list_nodes_full_def private_list_nodes_def run_defs
      split: sum.splits prod.splits dest!: pool_info_log)

lemma get_node_loop_stop: "attempts < 0 \<Longrightarrow> get_node_loop env name attempts w = (Inr (PDict []), w)"
  by (subst get_node_loop.simps) (simp add: run_defs)

lemma get_node_loop_log_nat:
  "\<exists>new. rpc_log (snd (get_node_loop env name (int n - 1) w)) = rpc_log w @ new
         \<and> filter (\<lambda>(request, answer). rpc_method request = ''one.vm.action'') new = []"
proof (induction n arbitrary: w)
  case 0
  show ?case by (simp add: get_node_loop_stop)
next
  case (Suc n)
  obtain r w1 where l: "list_nodes_full env None w = (r, w1)"
    by (cases "list_nodes_full env None w")
  from list_nodes_full_log [OF l] obtain new1 where
    new1: "rpc_log w1 = rpc_log w @ new1"
      "filter (\<lambda>(request, answer). rpc_method request = ''one.vm.action'') new1 = []"
    by blast
  let ?w2 = "w1\<lparr>sleeps := sleeps w1 @ [1 / 2]\<rparr>"
  let ?attempt = "andthen (list_nodes_full env None) (\<lambda>nodes. outcome (pool_getitem nodes name)) w"
  have attempt: "snd ?attempt = w1"
    using l by (simp add: run_defs split: sum.splits)
  show ?case
  proof (cases "fst ?attempt = Inl KeyError")
    case True
    then have "?attempt = (Inl KeyError, w1)"
      using attempt by (metis prod.collapse)
    then have step: "get_node_loop env name (int (Suc n) - 1) w = get_node_loop env name (int n - 1) ?w2"
      by (subst get_node_loop.simps) (simp add: run_defs time_sleep_def)
    from Suc.IH [of ?w2] obtain new2 where
      "rpc_log (snd (get_node_loop env name (int n - 1) ?w2)) = rpc_log ?w2 @ new2"
      "filter (\<lambda>(request, answer). rpc_method request = ''one.vm.action'') new2 = []"
      by blast
    then have "rpc_log (snd (get_node_loop env name (int n - 1) ?w2)) = rpc_log w @ (new1 @ new2)
        \<and> filter (\<lambda>(request, answer). rpc_method request = ''one.vm.action'') (new1 @ new2) = []"
      using new1 by simp
    then show ?thesis
      unfolding step by blast
  next
    case False
    then have "get_node_loop env name (int (Suc n) - 1) w = ?attempt"
      by (subst get_node_loop.simps)
        (cases ?attempt, auto split: sum.splits error.splits)
    then show ?thesis
      using attempt new1 by auto
  qed
qed

lemma show_instance_log:
  assumes "show_instance env name call w = (r, w')"
  shows "\<exists>new. rpc_log w' = rpc_log w @ new
           \<and> filter (\<lambda>(request, answer). rpc_method request = ''one.vm.action'') new = []"
proof (cases "call = Some ''action''")
  case False
  with assms show ?thesis by (simp add: show_instance_def raise_def)
next
  case True
  have "(10::int) = int 11 - 1" by simp
  with get_node_loop_log_nat [of env name 11 w] obtain new where
    new: "rpc_log (snd (get_node env name w)) = rpc_log w @ new"
      "filter (\<lambda>(request, answer). rpc_method request = ''one.vm.action'') new = []"
    unfolding get_node_def by metis
  have "rpc_log w' = rpc_log (snd (get_node env name w))"
    using assms True
    by (cases "get_node env name w")
      (auto simp: show_instance_def run_defs cache_node_def split: sum.splits)
  with new show ?thesis by auto
qed

text \<open>
  C4, as the claim states it, fails in the call context \<open>function\<close>: \<open>web1\<close> resolves
  to a record, yet \<open>destroy\<close> raises the usage error of the context, sends no request
  and returns no result record.
\<close>

theorem destroy_counterexample:
  "fst (show_instance example_env (PStr ''web1'') (Some ''action'') empty_world)
     = Inr example_web1
   \<and> destroy example_env (PStr ''web1'') (Some ''function'') empty_world
     = (Inl (SaltCloudSystemExit
          ''The destroy action must be called with -d, --destroy, -a or --action.''),
        empty_world)
   \<and> rpc_log empty_world = []"
  by (simp add: show_instance_example destroy_def raise_def empty_world_def)

text \<open>
  C4, amended. Let \<open>destroy\<close> be called in a context other than \<open>function\<close>, let the
  lookup of the name (run after the event \<open>destroying instance\<close>) resolve to a record
  whose \<open>id\<close> converts to the integer \<open>n\<close>, and let the provider answer the delete
  action with a triple. Then among the requests that \<open>destroy\<close> sends there is exactly
  one to \<open>one.vm.action\<close>, the action \<open>delete\<close> on \<open>n\<close>, and the result record holds
  the three elements of the provider's answer unchanged.
\<close>

theorem destroy_one_delete_request:
  assumes ctx: "call \<noteq> Some ''function''"
    and lookup: "show_instance env name (Some ''action'')
        (w\<lparr>events := events w
            @ [(''destroying instance'', ''salt/cloud/'' @ py_str env name @ ''/destroying'')]\<rparr>)
      = (Inr data, w1)"
    and ident: "getitem data ''id'' = Inr id_text"
    and numeric: "py_int env id_text = Inr n"
    and handle: "get_xml_rpc env = Inr (srv, user, password)"
    and auth: "join_colon user password = Inr auth"
    and answer: "respond env srv (rpc_log w1) (Rpc ''one.vm.action'' [PStr auth, PStr ''delete'', PInt n])
      = Reply (PList [flag, node_id, error_code])"
  shows "fst (destroy env name call w)
           = Inr (PDict [(''action'', PStr ''vm.delete''), (''deleted'', flag),
                         (''node_id'', node_id), (''error_code'', error_code)])
       \<and> filter (\<lambda>(request, answer). rpc_method request = ''one.vm.action'')
            (drop (length (rpc_log w)) (rpc_log (snd (destroy env name call w))))
           = [(Rpc ''one.vm.action'' [PStr auth, PStr ''delete'', PInt n],
               Reply (PList [flag, node_id, error_code]))]"
proof -
  from show_instance_log [OF lookup] obtain new where
    new: "rpc_log w1 = rpc_log w @ new"
      "filter (\<lambda>(request, answer). rpc_method request = ''one.vm.action'') new = []"
    by auto
  let ?request = "Rpc ''one.vm.action'' [PStr auth, PStr ''delete'', PInt n]"
  let ?w2 = "w1\<lparr>rpc_log := rpc_log w1 @ [(?request, Reply (PList [flag, node_id, error_code]))]\<rparr>"
  have call: "rpc_call env srv ''one.vm.action'' [PStr auth, PStr ''delete'', PInt n] w1
      = (Inr (PList [flag, node_id, error_code]), ?w2)"
    using answer by (simp add: rpc_call_def Let_def)
  have result: "fst (destroy env name call w)
           = Inr (PDict [(''action'', PStr ''vm.delete''), (''deleted'', flag),
                         (''node_id'', node_id), (''error_code'', error_code)])"
    and log: "rpc_log (snd (destroy env name call w)) = rpc_log ?w2"
    using ctx lookup ident numeric handle auth call
    by (simp_all add: destroy_def run_defs fire_event_def delete_minion_cachedir_def
        action_result_def getindex_def sum_then_def)
  show ?thesis
    using result new by (simp add: log)
qed

theorem destroy_one_delete_request_witness:
  "fst (destroy example_env (PStr ''web1'') None empty_world)
     = Inr (PDict [(''action'', PStr ''vm.delete''), (''deleted'', PBool True),
                   (''node_id'', PInt 7), (''error_code'', PInt 0)])
   \<and> filter (\<lambda>(request, answer). rpc_method request = ''one.vm.action'')
        (rpc_log (snd (destroy example_env (PStr ''web1'') None empty_world)))
     = [(Rpc ''one.vm.action'' [PStr ''oneadmin:secret'', PStr ''delete'', PInt 7],
         Reply (PList [PBool True, PInt 7, PInt 0]))]"
proof -
  let ?w0 = "empty_world\<lparr>events := events empty_world
      @ [(''destroying instance'',
          ''salt/cloud/'' @ py_str example_env (PStr ''web1'') @ ''/destroying'')]\<rparr>"
  let ?w1 = "snd (show_instance example_env (PStr ''web1'') (Some ''action'') ?w0)"
  have ctx: "(None :: string option) \<noteq> Some ''function''"
    by simp
  have lookup: "show_instance example_env (PStr ''web1'') (Some ''action'') ?w0
      = (Inr example_web1, ?w1)"
    by (simp add: show_instance_example)
  have ident: "getitem example_web1 ''id'' = Inr (PStr ''7'')"
    by (simp add: getitem_def example_web1_def)
  have numeric: "py_int example_env (PStr ''7'') = Inr 7"
    by (simp add: py_int_def example_fields)
  have answer: "respond example_env (ServerProxy (PStr ''http://localhost:2633/RPC2'')) (rpc_log ?w1)
        (Rpc ''one.vm.action'' [PStr ''oneadmin:secret'', PStr ''delete'', PInt 7])
      = Reply (PList [PBool True, PInt 7, PInt 0])"
    by (simp add: example_fields example_respond_def)
  have "rpc_log empty_world = []"
    by (simp add: empty_world_def)
  then show ?thesis
    using destroy_one_delete_request
      [OF ctx lookup ident numeric get_xml_rpc_example join_colon_example answer]
    by simp
qed

section \<open>Creating a VM\<close>

lemma pool_info_bootstraps:
  "pool_info env srv m as w = (r, w') \<Longrightarrow> bootstraps w' = bootstraps w"
  by (auto dest!: pool_info_effect)

lemma avail_images_bootstraps:
  "avail_images env call w = (r, w') \<Longrightarrow> bootstraps w' = bootstraps w"
  by (auto simp: avail_images_def run_defs split: if_splits sum.splits prod.splits
      dest!: pool_info_bootstraps)

lemma avail_locations_bootstraps:
  "avail_locations env call w = (r, w') \<Longrightarrow> bootstraps w' = bootstraps w"
  by (auto simp: avail_locations_def run_defs split: if_splits sum.splits prod.splits
      dest!: pool_info_bootstraps)

lemma get_image_bootstraps:
  "get_image env vm w = (r, w') \<Longrightarrow> bootstraps w' = bootstraps w"
  by (auto simp: get_image_def run_defs Let_def split: sum.splits prod.splits
      dest!: avail_images_bootstraps)

lemma get_location_bootstraps:
  "get_location env vm w = (r, w') \<Longrightarrow> bootstraps w' = bootstraps w"
  by (auto simp: get_location_def run_defs Let_def split: sum.splits prod.splits if_splits
      dest!: avail_locations_bootstraps)

lemma create_request_bootstraps:
  "create_request env vm0 w = (r, w1) \<Longrightarrow> bootstraps w1 = bootstraps w"
  by (auto simp: create_request_def run_defs Let_def fire_event_def
      split: sum.splits prod.splits
      dest!: get_image_bootstraps get_location_bootstraps)

lemma create_instantiate_bootstraps:
  "create_instantiate env kwargs w1 = (r, w2) \<Longrightarrow> bootstraps w2 = bootstraps w1"
  by (auto simp: create_instantiate_def run_defs Let_def rpc_call_def
      split: sum.splits prod.splits response.splits)

lemma create_reaches_wait:
  assumes "profile_check env vm0 = Inr True"
    and "create_request env vm0 w = (Inr (vm, kwargs), w1)"
    and "create_instantiate env kwargs w1 = (Inr True, w2)"
  shows "create env vm0 w = andthen (create_wait env vm) (create_deploy env vm) w2"
  using assms by (simp add: create_def run_defs)

text \<open>
  C3. Take a run of \<open>create\<close> that reaches the poll (the profile is configured, the
  request is built, the instantiate call does not fail), and let the poll end with
  \<open>SaltCloudExecutionTimeout\<close> or \<open>SaltCloudExecutionFailure\<close> with message \<open>msg\<close>.
  Then \<open>create\<close> runs \<open>destroy\<close> on the name of the VM, from the world the poll left,
  and whatever \<open>destroy\<close> returns or raises, \<open>create\<close> raises \<open>SaltCloudSystemExit\<close>
  with the message of the poll's error: it returns no result.
\<close>

theorem create_poll_failure:
  assumes profile: "profile_check env vm0 = Inr True"
    and request: "create_request env vm0 w = (Inr (vm, kwargs), w1)"
    and instantiate: "create_instantiate env kwargs w1 = (Inr True, w2)"
    and name: "vm ''name'' = Some name"
    and poll: "wait_for_ip env (query_node_data env name)
                 (get_cloud_config_value env ''wait_for_ip_timeout'' vm (PInt (10 * 60)))
                 (get_cloud_config_value env ''wait_for_ip_interval'' vm (PInt 2)) w2
               = (Inl exc, w3)"
    and exc: "exc = SaltCloudExecutionTimeout msg \<or> exc = SaltCloudExecutionFailure msg"
  shows "create env vm0 w = (Inl (SaltCloudSystemExit msg), snd (destroy env name None w3))"
proof -
  have handler: "destroy_then_raise env name msg w3
      = (Inl (SaltCloudSystemExit msg), snd (destroy env name None w3))"
    by (cases "destroy env name None w3")
      (auto simp: destroy_then_raise_def split: sum.splits error.splits)
  have "create_wait env vm w2 = destroy_then_raise env name msg w3"
    using name poll exc by (auto simp: create_wait_def run_defs vm_getitem_def)
  then show ?thesis
    using create_reaches_wait [OF profile request instantiate] handler
    by (simp add: run_defs)
qed

theorem create_poll_failure_witness:
  "fst (create example_env (example_vm ''bad1'') empty_world)
     = Inl (SaltCloudSystemExit ''Too many failures occurred'')
   \<and> events (snd (create example_env (example_vm ''bad1'') empty_world))
     = [(''starting create'', ''salt/cloud/bad1/creating''),
        (''requesting instance'', ''salt/cloud/bad1/requesting''),
        (''destroying instance'', ''salt/cloud/bad1/destroying''),
        (''destroyed instance'', ''salt/cloud/bad1/destroyed'')]
   \<and> map (rpc_method \<circ> fst) (rpc_log (snd (create example_env (example_vm ''bad1'') empty_world)))
     = [''one.imagepool.info'', ''one.hostpool.info'', ''one.template.instantiate'',
        ''one.vmpool.info'', ''one.vmpool.info'', ''one.vm.action'']"
proof -
  let ?vm = "(example_vm ''bad1'')(''provider'' := None, ''driver'' \<mapsto> PStr ''opennebula'')"
  let ?kwargs = "\<lparr>k_name = PStr ''bad1'', k_image_id = PStr ''5'', k_region_id = PStr ''2'',
                  k_private_networking = PStr ''false''\<rparr>"
  let ?w1 = "snd (create_request example_env (example_vm ''bad1'') empty_world)"
  let ?w2 = "snd (create_instantiate example_env ?kwargs ?w1)"
  let ?w3 = "snd (show_instance example_env (PStr ''bad1'') (Some ''action'') ?w2)"
  have profile: "profile_check example_env (example_vm ''bad1'') = Inr True"
    by (simp add: profile_check_def vm_getitem_def example_vm_def example_fields sum_then_def)
  have request: "create_request example_env (example_vm ''bad1'') empty_world
      = (Inr (?vm, ?kwargs), ?w1)"
    by (simp add: create_request_example)
  have instantiate: "create_instantiate example_env ?kwargs ?w1 = (Inr True, ?w2)"
    by (simp add: create_instantiate_example)
  have name: "?vm ''name'' = Some (PStr ''bad1'')"
    by (simp add: example_vm_def)
  have poll: "wait_for_ip example_env (query_node_data example_env (PStr ''bad1''))
        (get_cloud_config_value example_env ''wait_for_ip_timeout'' ?vm (PInt (10 * 60)))
        (get_cloud_config_value example_env ''wait_for_ip_interval'' ?vm (PInt 2)) ?w2
      = (Inl (SaltCloudExecutionFailure ''Too many failures occurred''), ?w3)"
    by (rule wait_for_ip_example)
  have exc: "SaltCloudExecutionFailure ''Too many failures occurred''
        = SaltCloudExecutionTimeout ''Too many failures occurred''
      \<or> SaltCloudExecutionFailure ''Too many failures occurred''
        = SaltCloudExecutionFailure ''Too many failures occurred''"
    by simp
  show ?thesis
    using create_poll_failure [OF profile request instantiate name poll exc]
    by (simp add: destroy_example show_instance_example create_instantiate_example
        create_request_example empty_world_def)
qed

text \<open>
  C9. Take a run of \<open>create\<close> whose poll succeeds, with a \<open>private_key\<close> configured
  (not \<open>None\<close>) that is not a file. Then \<open>create\<close> raises \<open>SaltCloudConfigError\<close>
  with a message that holds the \<open>repr\<close> of the path, in the world the poll left: nothing
  is done after the poll, and nothing was handed to the bootstrap routine before it.
\<close>

theorem create_missing_key_file:
  assumes profile: "profile_check env vm0 = Inr True"
    and request: "create_request env vm0 w = (Inr (vm, kwargs), w1)"
    and instantiate: "create_instantiate env kwargs w1 = (Inr True, w2)"
    and name: "vm ''name'' = Some name"
    and poll: "wait_for_ip env (query_node_data env name)
                 (get_cloud_config_value env ''wait_for_ip_timeout'' vm (PInt (10 * 60)))
                 (get_cloud_config_value env ''wait_for_ip_interval'' vm (PInt 2)) w2
               = (Inr data, w3)"
    and key: "get_cloud_config_value env ''private_key'' vm PNone = key_filename"
    and configured: "key_filename \<noteq> PNone"
    and missing: "\<not> isfile env key_filename"
  shows "create env vm0 w
     = (Inl (SaltCloudConfigError
          (''The defined key_filename '' @ repr env key_filename @ '' does not exist'')), w3)
       \<and> bootstraps w2 = bootstraps w"
proof -
  have before: "bootstraps w2 = bootstraps w"
    using create_request_bootstraps [OF request] create_instantiate_bootstraps [OF instantiate]
    by simp
  have "create_wait env vm w2 = (Inr data, w3)"
    using name poll by (simp add: create_wait_def run_defs vm_getitem_def)
  moreover have "create_deploy env vm data w3
     = (Inl (SaltCloudConfigError
          (''The defined key_filename '' @ repr env key_filename @ '' does not exist'')), w3)"
    using key configured missing by (simp add: create_deploy_def raise_def Let_def)
  ultimately show ?thesis
    using create_reaches_wait [OF profile request instantiate] before
    by (simp add: run_defs)
qed

theorem create_missing_key_file_witness:
  "fst (create example_env (example_vm ''web1'') empty_world)
     = Inl (SaltCloudConfigError
         ''The defined key_filename </etc/salt/missing.pem> does not exist'')
   \<and> bootstraps (snd (create example_env (example_vm ''web1'') empty_world)) = []"
proof -
  let ?vm = "(example_vm ''web1'')(''provider'' := None, ''driver'' \<mapsto> PStr ''opennebula'')"
  let ?kwargs = "\<lparr>k_name = PStr ''web1'', k_image_id = PStr ''5'', k_region_id = PStr ''2'',
                  k_private_networking = PStr ''false''\<rparr>"
  let ?w1 = "snd (create_request example_env (example_vm ''web1'') empty_world)"
  let ?w2 = "snd (create_instantiate example_env ?kwargs ?w1)"
  let ?w3 = "snd (show_instance example_env (PStr ''web1'') (Some ''action'') ?w2)"
  have profile: "profile_check example_env (example_vm ''web1'') = Inr True"
    by (simp add: profile_check_def vm_getitem_def example_vm_def example_fields sum_then_def)
  have request: "create_request example_env (example_vm ''web1'') empty_world
      = (Inr (?vm, ?kwargs), ?w1)"
    by (simp add: create_request_example)
  have instantiate: "create_instantiate example_env ?kwargs ?w1 = (Inr True, ?w2)"
    by (simp add: create_instantiate_example)
  have name: "?vm ''name'' = Some (PStr ''web1'')"
    by (simp add: example_vm_def)
  have poll: "wait_for_ip example_env (query_node_data example_env (PStr ''web1''))
        (get_cloud_config_value example_env ''wait_for_ip_timeout'' ?vm (PInt (10 * 60)))
        (get_cloud_config_value example_env ''wait_for_ip_interval'' ?vm (PInt 2)) ?w2
      = (Inr example_web1, ?w3)"
    by (rule wait_for_ip_example)
  have key: "get_cloud_config_value example_env ''private_key'' ?vm PNone
      = PStr ''/etc/salt/missing.pem''"
    by (simp add: example_fields example_vm_def)
  have configured: "PStr ''/etc/salt/missing.pem'' \<noteq> PNone"
    by simp
  have missing: "\<not> isfile example_env (PStr ''/etc/salt/missing.pem'')"
    by (simp add: example_fields)
  show ?thesis
    using create_missing_key_file
      [OF profile request instantiate name poll key configured missing]
    by (simp add: example_fields show_instance_example create_instantiate_example
        create_request_example empty_world_def)
qed

lemma create_request_kwargs:
  assumes "create_request env vm0 w = (Inr (vm, kwargs), w1)"
  shows "vm ''name'' = Some (k_name kwargs)
       \<and> (\<exists>wa wb wc. get_image env vm wa = (Inr (k_image_id kwargs), wb)
             \<and> get_location env vm wb = (Inr (k_region_id kwargs), wc))"
  using assms
  by (auto simp: create_request_def run_defs Let_def vm_getitem_def fire_event_def
      split: sum.splits option.splits prod.splits) blast+

lemma get_location_unset:
  assumes "get_location env vm w = (Inr region_id, w')"
    and "py_str env (get_cloud_config_value env ''location'' vm PNone) = ''None''"
  shows "region_id = PNone"
  using assms by (auto simp: get_location_def run_defs Let_def split: sum.splits prod.splits)

text \<open>
  C8. Take a run of \<open>create\<close> that reaches the instantiate step (the profile is
  configured and the request is built, with its \<open>kwargs\<close>), in which the handle opens,
  the credentials join and the image id converts to the integer \<open>n\<close>. Then \<open>create\<close>
  runs the instantiate step on these \<open>kwargs\<close>, and the step sends exactly one request,
  \<open>one.template.instantiate\<close>, with the credentials, \<open>n\<close>, the name of the VM, \<open>False\<close>
  and the scheduler requirement: the empty string when the location is \<open>None\<close>,
  \<open>SCHED_REQUIREMENTS="ID=<id>"\<close> otherwise. The image id and the location of the
  \<open>kwargs\<close> are what \<open>get_image\<close> and \<open>get_location\<close> returned, and the location is
  \<open>None\<close> when none is configured.
\<close>

theorem create_instantiate_request:
  assumes profile: \<open>profile_check env vm0 = Inr True\<close>
    and request: \<open>create_request env vm0 w = (Inr (vm, kwargs), w1)\<close>
    and handle: \<open>get_xml_rpc env = Inr (srv, user, password)\<close>
    and auth: \<open>join_colon user password = Inr auth\<close>
    and numeric: \<open>py_int env (k_image_id kwargs) = Inr n\<close>
  shows \<open>create env vm0 w
         = andthen (create_instantiate env kwargs)
             (\<lambda>instantiated. if \<not> instantiated then ok (PBool False)
                else andthen (create_wait env vm) (create_deploy env vm)) w1
       \<and> rpc_log (snd (create_instantiate env kwargs w1))
         = rpc_log w1
           @ [(Rpc ''one.template.instantiate''
                 [PStr auth, PInt n, k_name kwargs, PBool False,
                  PStr (if k_region_id kwargs = PNone then []
                        else ''SCHED_REQUIREMENTS="ID='' @ py_str env (k_region_id kwargs) @ ''"'')],
               respond env srv (rpc_log w1)
                 (Rpc ''one.template.instantiate''
                   [PStr auth, PInt n, k_name kwargs, PBool False,
                    PStr (if k_region_id kwargs = PNone then []
                          else ''SCHED_REQUIREMENTS="ID='' @ py_str env (k_region_id kwargs) @ ''"'')]))]
       \<and> vm ''name'' = Some (k_name kwargs)
       \<and> (\<exists>wa wb wc. get_image env vm wa = (Inr (k_image_id kwargs), wb)
             \<and> get_location env vm wb = (Inr (k_region_id kwargs), wc))
       \<and> (py_str env (get_cloud_config_value env ''location'' vm PNone) = ''None''
            \<longrightarrow> k_region_id kwargs = PNone)\<close>
proof -
  have run: "create env vm0 w
         = andthen (create_instantiate env kwargs)
             (\<lambda>instantiated. if \<not> instantiated then ok (PBool False)
                else andthen (create_wait env vm) (create_deploy env vm)) w1"
    using profile request by (simp add: create_def run_defs)
  have sent: \<open>rpc_log (snd (create_instantiate env kwargs w1))
         = rpc_log w1
           @ [(Rpc ''one.template.instantiate''
                 [PStr auth, PInt n, k_name kwargs, PBool False,
                  PStr (if k_region_id kwargs = PNone then []
                        else ''SCHED_REQUIREMENTS="ID='' @ py_str env (k_region_id kwargs) @ ''"'')],
               respond env srv (rpc_log w1)
                 (Rpc ''one.template.instantiate''
                   [PStr auth, PInt n, k_name kwargs, PBool False,
                    PStr (if k_region_id kwargs = PNone then []
                          else ''SCHED_REQUIREMENTS="ID='' @ py_str env (k_region_id kwargs) @ ''"'')]))]\<close>
    using handle auth numeric
    by (simp add: create_instantiate_def sched_requirements_def run_defs rpc_call_def Let_def
        split: response.splits)
  from create_request_kwargs [OF request] obtain wa wb wc where
    kw: "vm ''name'' = Some (k_name kwargs)"
      "get_image env vm wa = (Inr (k_image_id kwargs), wb)"
      "get_location env vm wb = (Inr (k_region_id kwargs), wc)"
    by blast
  have "py_str env (get_cloud_config_value env ''location'' vm PNone) = ''None''
            \<longrightarrow> k_region_id kwargs = PNone"
    using get_location_unset [OF kw(3)] by blast
  with run sent kw show ?thesis by blast
qed

theorem create_instantiate_request_witness:
  \<open>rpc_log (snd (create_instantiate example_env
       \<lparr>k_name = PStr ''web1'', k_image_id = PStr ''5'', k_region_id = PStr ''2'',
        k_private_networking = PStr ''false''\<rparr>
       (snd (create_request example_env (example_vm ''web1'') empty_world))))
     = [(Rpc ''one.imagepool.info''
           [PStr ''oneadmin:secret'', PInt (- 1), PInt (- 1), PInt (- 1)],
         Reply (PList [PBool True, PStr ''images''])),
        (Rpc ''one.hostpool.info'' [PStr ''oneadmin:secret''],
         Reply (PList [PBool True, PStr ''hosts''])),
        (Rpc ''one.template.instantiate''
           [PStr ''oneadmin:secret'', PInt 5, PStr ''web1'', PBool False,
            PStr ''SCHED_REQUIREMENTS="ID=2"''],
         Reply (PList [PBool True, PInt 9, PInt 0]))]\<close>
proof -
  let ?vm = "(example_vm ''web1'')(''provider'' := None, ''driver'' \<mapsto> PStr ''opennebula'')"
  let ?kwargs = "\<lparr>k_name = PStr ''web1'', k_image_id = PStr ''5'', k_region_id = PStr ''2'',
                  k_private_networking = PStr ''false''\<rparr>"
  let ?w1 = "snd (create_request example_env (example_vm ''web1'') empty_world)"
  have profile: "profile_check example_env (example_vm ''web1'') = Inr True"
    by (simp add: profile_check_def vm_getitem_def example_vm_def example_fields sum_then_def)
  have request: "create_request example_env (example_vm ''web1'') empty_world
      = (Inr (?vm, ?kwargs), ?w1)"
    by (simp add: create_request_example)
  have numeric: "py_int example_env (k_image_id ?kwargs) = Inr 5"
    by (simp add: py_int_def example_fields)
  show ?thesis
    using create_instantiate_request
      [OF profile request get_xml_rpc_example join_colon_example numeric]
    by (simp add: py_str_def example_fields example_respond_def create_request_example
        empty_world_def)
qed

end
